theory Spec2Isabelle
  imports
    Main
    "HOL-Library.Char_ord"
    "HOL-Library.List_Lexorder"
    "HOL-Library.Product_Lexorder"
    "HOL-Library.Multiset"
    "HOL-Library.Sublist"
begin

section \<open>Python values shared by both tools\<close>

text \<open>
  The exceptions the two scripts can meet. The subclasses of \<open>OSError\<close> carry the
  path, \<open>ImportError\<close> its message.
\<close>

datatype py_error =
    KeyError
  | ValueError
  | ImportError string
  | FileNotFoundError string
  | FileExistsError string
  | IsADirectoryError string
  | NotADirectoryError string
  | PermissionError string
  | JSONDecodeError
  | UnicodeDecodeError

subsection \<open>\<open>str\<close> of an integer\<close>

definition digit_char :: "nat \<Rightarrow> char" where
  "digit_char d = char_of (48 + d)"

fun str_nat :: "nat \<Rightarrow> string" where
  "str_nat n = (if n < 10 then [digit_char n] else str_nat (n div 10) @ [digit_char (n mod 10)])"

declare str_nat.simps [simp del]

definition str_int :: "int \<Rightarrow> string" where
  "str_int i = (if i < 0 then CHR ''-'' # str_nat (nat (- i)) else str_nat (nat i))"

subsection \<open>Dictionaries\<close>

text \<open>
  A Python \<open>dict\<close> iterates in insertion order, and the code depends on it
  (\<open>list(unique_repos.values())\<close>, \<open>sorted(d.items(), ...)\<close>, \<open>zip(labels, sizes)\<close>):
  a dictionary is an association list with one entry per key, a new key appended at the
  end and an existing key updated in place.
\<close>

type_synonym ('k, 'v) dict = "('k \<times> 'v) list"

definition dict_contains :: "('k, 'v) dict \<Rightarrow> 'k \<Rightarrow> bool" where
  "dict_contains d k = (map_of d k \<noteq> None)"

definition dict_get :: "('k, 'v) dict \<Rightarrow> 'k \<Rightarrow> 'v \<Rightarrow> 'v" where
  "dict_get d k dflt = (case map_of d k of None \<Rightarrow> dflt | Some v \<Rightarrow> v)"

fun dict_set :: "('k, 'v) dict \<Rightarrow> 'k \<Rightarrow> 'v \<Rightarrow> ('k, 'v) dict" where
  "dict_set [] k v = [(k, v)]"
| "dict_set ((k', v') # d) k v = (if k' = k then (k', v) # d else (k', v') # dict_set d k v)"

definition dict_keys :: "('k, 'v) dict \<Rightarrow> 'k list" where
  "dict_keys d = map fst d"

definition dict_values :: "('k, 'v) dict \<Rightarrow> 'v list" where
  "dict_values d = map snd d"

text \<open>\<open>d[k] = d.get(k, 0) + 1\<close>\<close>

definition dict_count :: "('k, nat) dict \<Rightarrow> 'k \<Rightarrow> ('k, nat) dict" where
  "dict_count d k = dict_set d k (dict_get d k 0 + 1)"

text \<open>\<open>d[k] += 1\<close>: the key is read first, and a missing key raises.\<close>

definition dict_add1 :: "('k, nat) dict \<Rightarrow> 'k \<Rightarrow> py_error + ('k, nat) dict" where
  "dict_add1 d k = (case map_of d k of None \<Rightarrow> Inl KeyError | Some c \<Rightarrow> Inr (dict_set d k (c + 1)))"

text \<open>
  \<open>sorted(xs, key=f, reverse=True)\<close>: Python's sort is stable, and a reversed sort keeps
  the original order of equal keys; CPython reverses the list, sorts it stably in
  ascending order and reverses it again. \<open>sort_key\<close> is a stable insertion sort.
\<close>

definition sorted_reverse :: "('a \<Rightarrow> 'b::linorder) \<Rightarrow> 'a list \<Rightarrow> 'a list" where
  "sorted_reverse f xs = rev (sort_key f (rev xs))"

section \<open>The search tool (\<open>llm_literature_search.py\<close>)\<close>

subsection \<open>Repository records\<close>

text \<open>
  One item of the search API's \<open>items\<close> list, restricted to the fields the
  deduplication and the analysis read. \<open>repo["id"]\<close> is read unconditionally;
  \<open>language\<close>, \<open>topics\<close> and \<open>stargazers_count\<close> are read with \<open>get\<close>, and
  \<open>created_at\<close> is tested with \<open>in\<close>: for these \<open>None\<close> is the missing key
  (for \<open>language\<close> also JSON \<open>null\<close>, which \<open>get\<close> returns as \<open>None\<close> too).
\<close>

record repo =
  repo_id :: int
  language :: "string option"
  repo_topics :: "string list option"
  created_at :: "string option"
  stargazers_count :: "int option"

subsection \<open>\<open>GithubExplorer.__init__\<close>\<close>

record explorer =
  headers :: "(string, string) dict"

definition GithubExplorer :: "string option \<Rightarrow> explorer" where
  "GithubExplorer token =
     (let hs = [(''Accept'', ''application/vnd.github+json'')] in
      case token of
        None \<Rightarrow> \<lparr>headers = hs\<rparr>
      | Some t \<Rightarrow>
          if t \<noteq> [] then \<lparr>headers = dict_set hs ''Authorization'' (''token '' @ t)\<rparr>
          else \<lparr>headers = hs\<rparr>)"

subsection \<open>\<open>search_repositories\<close>\<close>

text \<open>
  The remote API is a parameter: a function from the request to the response. Of the
  decoded JSON body (\<open>response.json()\<close>) only the \<open>items\<close> entry is kept, \<open>None\<close>
  when the body has no such key. What the tool does besides computing is a list of
  events: the requests it sends, the lines it prints and its calls of \<open>time.sleep\<close>.
\<close>

record request =
  req_headers :: "(string, string) dict"
  req_q :: string
  req_sort :: string
  req_order :: string
  req_per_page :: int
  req_page :: int

record response =
  status_code :: int
  body_text :: string
  json_items :: "repo list option"

datatype event = Get request | Print string | Sleep nat

text \<open>The \<open>params\<close> of the request, with the defaults \<open>sort="stars"\<close>, \<open>order="desc"\<close>.\<close>

definition search_params :: "explorer \<Rightarrow> string \<Rightarrow> int \<Rightarrow> int \<Rightarrow> request" where
  "search_params self query per_page page =
     \<lparr>req_headers = headers self, req_q = query, req_sort = ''stars'',
      req_order = ''desc'', req_per_page = per_page, req_page = page\<rparr>"

definition search_repositories ::
  "explorer \<Rightarrow> (request \<Rightarrow> response) \<Rightarrow> string \<Rightarrow> int \<Rightarrow> int \<Rightarrow> event list \<times> repo list option" where
  "search_repositories self http query per_page page =
     (let params = search_params self query per_page page;
          response = http params
      in if status_code response \<noteq> 200
         then ([Get params, Print (''Error: '' @ str_int (status_code response)),
                Print (body_text response)], Some [])
         else ([Get params], json_items response))"

subsection \<open>\<open>find_llm_literature_projects\<close>\<close>

definition queries :: "string list" where
  "queries =
    [''language models literature'',
     ''llm literature analysis'',
     ''gpt literary analysis'',
     ''natural language processing literature'',
     ''computational literary analysis'',
     ''llm poetry generation'',
     ''transformer models literature'',
     ''literary text generation'',
     ''nlp literary criticism'',
     ''ai storytelling'']"

text \<open>The loop over the queries, with the events so far and \<open>all_results\<close> as its state.\<close>

fun search_loop ::
  "explorer \<Rightarrow> (request \<Rightarrow> response) \<Rightarrow> int \<Rightarrow> int \<Rightarrow> string list \<Rightarrow>
   event list \<times> repo list \<Rightarrow> event list \<times> repo list" where
  "search_loop self http per_page page [] st = st"
| "search_loop self http per_page page (query # rest) (evs, all_results) =
     (let (evs', results) = search_repositories self http query per_page page
      in search_loop self http per_page page rest
           (evs @ [Print (''Searching for: '' @ query)] @ evs' @ [Sleep 2],
            (case results of Some items \<Rightarrow> all_results @ items | None \<Rightarrow> all_results)))"

text \<open>The loop that removes duplicates, with \<open>unique_repos\<close> as its state.\<close>

fun remove_duplicates :: "repo list \<Rightarrow> (int, repo) dict \<Rightarrow> (int, repo) dict" where
  "remove_duplicates [] unique_repos = unique_repos"
| "remove_duplicates (repo # rest) unique_repos =
     remove_duplicates rest
       (if \<not> dict_contains unique_repos (repo_id repo)
        then dict_set unique_repos (repo_id repo) repo
        else unique_repos)"

definition unique_items :: "repo list \<Rightarrow> repo list" where
  "unique_items all_results = dict_values (remove_duplicates all_results [])"

definition find_llm_literature_projects ::
  "explorer \<Rightarrow> (request \<Rightarrow> response) \<Rightarrow> int \<Rightarrow> int \<Rightarrow> event list \<times> repo list" where
  "find_llm_literature_projects self http page per_page =
     (let (evs, all_results) = search_loop self http per_page page queries ([], [])
      in (evs, unique_items all_results))"

subsection \<open>\<open>analyze_results\<close>\<close>

text \<open>
  The analysis is a dictionary with five fixed keys; its four inner dictionaries keep
  their insertion order.
\<close>

record analysis =
  total_count :: nat
  languages :: "(string, nat) dict"
  topics :: "(string, nat) dict"
  created_dates :: "(string, nat) dict"
  stars_distribution :: "(string, nat) dict"

definition initial_analysis :: "repo list \<Rightarrow> analysis" where
  "initial_analysis items =
     \<lparr>total_count = length items,
      languages = [],
      topics = [],
      created_dates = [],
      stars_distribution =
        [(''0-10'', 0), (''11-50'', 0), (''51-100'', 0), (''101-500'', 0),
         (''501-1000'', 0), (''1001+'', 0)]\<rparr>"

text \<open>
  \<open>language = repo.get("language"); if language: ...\<close>: a missing or null language and
  the empty string are both false.
\<close>

definition count_language :: "(string, nat) dict \<Rightarrow> repo \<Rightarrow> (string, nat) dict" where
  "count_language langs repo =
     (case language repo of
        None \<Rightarrow> langs
      | Some l \<Rightarrow> if l \<noteq> [] then dict_count langs l else langs)"

text \<open>\<open>for topic in repo.get("topics", []): ...\<close>\<close>

definition count_topics :: "(string, nat) dict \<Rightarrow> repo \<Rightarrow> (string, nat) dict" where
  "count_topics tps repo =
     foldl dict_count tps (case repo_topics repo of None \<Rightarrow> [] | Some ts \<Rightarrow> ts)"

text \<open>
  \<open>datetime.strptime(repo["created_at"], "%Y-%m-%dT%H:%M:%SZ").year\<close> is a library call:
  the parameter \<open>strptime_year\<close> gives the year of a timestamp, and \<open>None\<close> where
  \<open>strptime\<close> raises \<open>ValueError\<close>. The key of the dictionary is \<open>str(year)\<close>.
\<close>

definition count_created ::
  "(string \<Rightarrow> nat option) \<Rightarrow> (string, nat) dict \<Rightarrow> repo \<Rightarrow> py_error + (string, nat) dict" where
  "count_created strptime_year dates repo =
     (case created_at repo of
        None \<Rightarrow> Inr dates
      | Some s \<Rightarrow>
          (case strptime_year s of
             None \<Rightarrow> Inl ValueError
           | Some year \<Rightarrow> Inr (dict_count dates (str_nat year))))"

text \<open>\<open>stars = repo.get("stargazers_count", 0)\<close> and the chain of comparisons.\<close>

definition stars_of :: "repo \<Rightarrow> int" where
  "stars_of repo = (case stargazers_count repo of None \<Rightarrow> 0 | Some n \<Rightarrow> n)"

definition count_stars :: "(string, nat) dict \<Rightarrow> int \<Rightarrow> py_error + (string, nat) dict" where
  "count_stars dist stars =
     (if stars \<le> 10 then dict_add1 dist ''0-10''
      else if stars \<le> 50 then dict_add1 dist ''11-50''
      else if stars \<le> 100 then dict_add1 dist ''51-100''
      else if stars \<le> 500 then dict_add1 dist ''101-500''
      else if stars \<le> 1000 then dict_add1 dist ''501-1000''
      else dict_add1 dist ''1001+'')"

text \<open>The body of the loop over \<open>results["items"]\<close>, and the loop.\<close>

definition analyze_repo ::
  "(string \<Rightarrow> nat option) \<Rightarrow> analysis \<Rightarrow> repo \<Rightarrow> py_error + analysis" where
  "analyze_repo strptime_year a repo =
     (let langs = count_language (languages a) repo;
          tps = count_topics (topics a) repo
      in case count_created strptime_year (created_dates a) repo of
           Inl e \<Rightarrow> Inl e
         | Inr dates \<Rightarrow>
             (case count_stars (stars_distribution a) (stars_of repo) of
                Inl e \<Rightarrow> Inl e
              | Inr dist \<Rightarrow>
                  Inr (a\<lparr>languages := langs, topics := tps, created_dates := dates,
                          stars_distribution := dist\<rparr>)))"

fun analyze_loop ::
  "(string \<Rightarrow> nat option) \<Rightarrow> repo list \<Rightarrow> analysis \<Rightarrow> py_error + analysis" where
  "analyze_loop strptime_year [] a = Inr a"
| "analyze_loop strptime_year (repo # rest) a =
     (case analyze_repo strptime_year a repo of
        Inl e \<Rightarrow> Inl e
      | Inr a' \<Rightarrow> analyze_loop strptime_year rest a')"

text \<open>
  After the loop the languages and the topics are sorted by descending count, and the
  creation years by \<open>sorted(d.items())\<close>: pairs compared lexicographically, the keys as
  strings.
\<close>

definition analyze_results ::
  "explorer \<Rightarrow> (string \<Rightarrow> nat option) \<Rightarrow> repo list \<Rightarrow> py_error + analysis" where
  "analyze_results self strptime_year items =
     (case analyze_loop strptime_year items (initial_analysis items) of
        Inl e \<Rightarrow> Inl e
      | Inr a \<Rightarrow>
          Inr (a\<lparr>languages := sorted_reverse snd (languages a),
                  topics := sorted_reverse snd (topics a),
                  created_dates := sort (created_dates a)\<rparr>))"

subsection \<open>The name of the analysis file in \<open>main\<close>\<close>

text \<open>
  \<open>str.replace(old, new)\<close> replaces every occurrence of \<open>old\<close>, found from left to
  right without overlap. For an empty \<open>old\<close> Python puts \<open>new\<close> before every character
  and at the end.
\<close>

function str_replace :: "string \<Rightarrow> string \<Rightarrow> string \<Rightarrow> string" where
  "str_replace old new s =
     (if old = [] then new @ concat (map (\<lambda>c. c # new) s)
      else if s = [] then []
      else if take (length old) s = old then new @ str_replace old new (drop (length old) s)
      else hd s # str_replace old new (tl s))"
  by pat_completeness auto
termination
  by (relation "measure (\<lambda>(old, new, s). length s)") (auto simp: Suc_le_eq)

declare str_replace.simps [simp del]

text \<open>\<open>analysis_file = args.output.replace(".json", "_analysis.json")\<close>\<close>

definition analysis_file_for :: "string \<Rightarrow> string" where
  "analysis_file_for output = str_replace ''.json'' ''_analysis.json'' output"

section \<open>The report renderer (\<open>visualize_results.py\<close>)\<close>

subsection \<open>Figures, files and the operating system\<close>

text \<open>
  What \<open>matplotlib\<close> draws is kept as the data each plotting call receives: the bars of
  \<open>plt.bar\<close> and \<open>plt.barh\<close>, the sizes, labels and \<open>autopct\<close> format of \<open>plt.pie\<close>, the
  points of \<open>plt.plot\<close>. A file holds text, a saved figure, or the HTML report (the fixed
  template with its two holes, the total count and the date).
\<close>

datatype chart =
    Bar "string list" "nat list"
  | Barh "string list" "nat list"
  | Pie "nat list" "string list" string
  | Plot "string list" "nat list"

datatype file_content = Text string | Figure chart | Html nat string

text \<open>
  The operating system is a parameter: the four calls the renderer makes, as functions
  on a state \<open>'fs\<close> of the file system that is left arbitrary, so that what is proved
  holds whatever these calls do with parent directories, spellings of a path, links,
  permissions or regular files in the way. A call that changes the file system returns
  the new state, also when it raises (\<open>os.makedirs\<close> may have created parents before it
  fails). \<open>open_write\<close> stands for opening a file for writing and writing it, which is
  also what \<open>plt.savefig\<close> does.
\<close>

record 'fs operating_system =
  path_exists :: "'fs \<Rightarrow> string \<Rightarrow> bool"
  makedirs :: "'fs \<Rightarrow> string \<Rightarrow> 'fs \<times> (py_error + unit)"
  open_read :: "'fs \<Rightarrow> string \<Rightarrow> py_error + file_content"
  open_write :: "'fs \<Rightarrow> string \<Rightarrow> file_content \<Rightarrow> 'fs \<times> (py_error + unit)"

text \<open>\<open>os.path.join\<close> of two components (POSIX): a computation on the strings alone.\<close>

definition os_path_join :: "string \<Rightarrow> string \<Rightarrow> string" where
  "os_path_join a b =
     (if b \<noteq> [] \<and> hd b = CHR ''/'' then b
      else if a = [] \<or> last a = CHR ''/'' then a @ b
      else a @ ''/'' @ b)"

subsection \<open>\<open>ResultsVisualizer.__init__\<close>\<close>

record visualizer =
  self_output_dir :: string
  self_analysis :: analysis

text \<open>\<open>if not os.path.exists(output_dir): os.makedirs(output_dir)\<close>\<close>

definition ensure_output_dir ::
  "'fs operating_system \<Rightarrow> 'fs \<Rightarrow> string \<Rightarrow> 'fs \<times> (py_error + unit)" where
  "ensure_output_dir os fs output_dir =
     (if \<not> path_exists os fs output_dir then makedirs os fs output_dir else (fs, Inr ()))"

text \<open>
  \<open>HAS_MATPLOTLIB\<close> is the module's flag. \<open>json.load\<close> is a library call: the parameter
  \<open>json_load\<close> decodes the text of the analysis file, \<open>None\<close> where it raises
  \<open>JSONDecodeError\<close>; a saved figure is not UTF-8 text, and the HTML report is text but
  no JSON. The file system comes back also when the constructor raises.
\<close>

definition ResultsVisualizer ::
  "'fs operating_system \<Rightarrow> bool \<Rightarrow> (string \<Rightarrow> analysis option) \<Rightarrow> 'fs \<Rightarrow> string \<Rightarrow> string \<Rightarrow>
   'fs \<times> (py_error + visualizer)" where
  "ResultsVisualizer os HAS_MATPLOTLIB json_load fs analysis_file output_dir =
     (if \<not> HAS_MATPLOTLIB then (fs, Inl (ImportError ''matplotlib is required for visualization''))
      else
        case ensure_output_dir os fs output_dir of
          (fs', Inl e) \<Rightarrow> (fs', Inl e)
        | (fs', Inr _) \<Rightarrow>
            (case open_read os fs' analysis_file of
               Inl e \<Rightarrow> (fs', Inl e)
             | Inr (Text s) \<Rightarrow>
                 (case json_load s of
                    None \<Rightarrow> (fs', Inl JSONDecodeError)
                  | Some a \<Rightarrow> (fs', Inr \<lparr>self_output_dir = output_dir, self_analysis = a\<rparr>))
             | Inr (Figure _) \<Rightarrow> (fs', Inl UnicodeDecodeError)
             | Inr (Html _ _) \<Rightarrow> (fs', Inl JSONDecodeError)))"

subsection \<open>The four charts\<close>

text \<open>\<open>plt.savefig(output_path)\<close>, and the path returned when it succeeds.\<close>

definition savefig ::
  "'fs operating_system \<Rightarrow> 'fs \<Rightarrow> string \<Rightarrow> chart \<Rightarrow> 'fs \<times> (py_error + string)" where
  "savefig os fs output_path fig =
     (case open_write os fs output_path (Figure fig) of
        (fs', Inl e) \<Rightarrow> (fs', Inl e)
      | (fs', Inr _) \<Rightarrow> (fs', Inr output_path))"

definition visualize_languages ::
  "'fs operating_system \<Rightarrow> visualizer \<Rightarrow> nat \<Rightarrow> 'fs \<Rightarrow> 'fs \<times> (py_error + string)" where
  "visualize_languages os self limit fs =
     (let sorted_langs = take limit (sorted_reverse snd (languages (self_analysis self)));
          langs = map (\<lambda>item. if fst item \<noteq> [] then fst item else ''Unknown'') sorted_langs;
          counts = map snd sorted_langs
      in savefig os fs (os_path_join (self_output_dir self) ''languages.png'') (Bar langs counts))"

definition visualize_topics ::
  "'fs operating_system \<Rightarrow> visualizer \<Rightarrow> nat \<Rightarrow> 'fs \<Rightarrow> 'fs \<times> (py_error + string)" where
  "visualize_topics os self limit fs =
     (let sorted_topics = take limit (sorted_reverse snd (topics (self_analysis self)));
          topic_names = map fst sorted_topics;
          counts = map snd sorted_topics
      in savefig os fs (os_path_join (self_output_dir self) ''topics.png'')
           (Barh topic_names counts))"

text \<open>
  The loop \<open>for label, size in zip(labels, sizes)\<close> of \<open>visualize_stars_distribution\<close>,
  with \<open>filtered_labels\<close> and \<open>filtered_sizes\<close> as its state (\<open>sz\<close> is the loop's
  \<open>size\<close>).
\<close>

fun filter_zero ::
  "(string \<times> nat) list \<Rightarrow> string list \<times> nat list \<Rightarrow> string list \<times> nat list" where
  "filter_zero [] st = st"
| "filter_zero ((label, sz) # rest) (filtered_labels, filtered_sizes) =
     (if sz > 0 then filter_zero rest (filtered_labels @ [label], filtered_sizes @ [sz])
      else filter_zero rest (filtered_labels, filtered_sizes))"

definition stars_pie :: "(string, nat) dict \<Rightarrow> chart" where
  "stars_pie stars =
     (let labels = dict_keys stars;
          sizes = dict_values stars;
          (filtered_labels, filtered_sizes) = filter_zero (zip labels sizes) ([], [])
      in Pie filtered_sizes filtered_labels ''%1.1f%%'')"

definition visualize_stars_distribution ::
  "'fs operating_system \<Rightarrow> visualizer \<Rightarrow> 'fs \<Rightarrow> 'fs \<times> (py_error + string)" where
  "visualize_stars_distribution os self fs =
     savefig os fs (os_path_join (self_output_dir self) ''stars_distribution.png'')
       (stars_pie (stars_distribution (self_analysis self)))"

text \<open>
  \<open>counts = [dates[year] for year in years]\<close>: every \<open>year\<close> is a key of \<open>dates\<close>, so
  the lookup cannot raise.
\<close>

definition visualize_creation_timeline ::
  "'fs operating_system \<Rightarrow> visualizer \<Rightarrow> 'fs \<Rightarrow> 'fs \<times> (py_error + string)" where
  "visualize_creation_timeline os self fs =
     (let dates = created_dates (self_analysis self);
          years = sort (dict_keys dates);
          counts = map (\<lambda>year. dict_get dates year 0) years
      in savefig os fs (os_path_join (self_output_dir self) ''creation_timeline.png'')
           (Plot years counts))"

text \<open>A call that raises ends the sequence; the files written before it stay.\<close>

definition create_all_visualizations ::
  "'fs operating_system \<Rightarrow> visualizer \<Rightarrow> 'fs \<Rightarrow> 'fs \<times> (py_error + string list)" where
  "create_all_visualizations os self fs =
     (case visualize_languages os self 10 fs of
        (fs1, Inl e) \<Rightarrow> (fs1, Inl e)
      | (fs1, Inr p1) \<Rightarrow>
     (case visualize_topics os self 15 fs1 of
        (fs2, Inl e) \<Rightarrow> (fs2, Inl e)
      | (fs2, Inr p2) \<Rightarrow>
     (case visualize_stars_distribution os self fs2 of
        (fs3, Inl e) \<Rightarrow> (fs3, Inl e)
      | (fs3, Inr p3) \<Rightarrow>
     (case visualize_creation_timeline os self fs3 of
        (fs4, Inl e) \<Rightarrow> (fs4, Inl e)
      | (fs4, Inr p4) \<Rightarrow> (fs4, Inr [p1, p2, p3, p4])))))"

text \<open>\<open>today\<close> is \<open>datetime.now().strftime("%Y-%m-%d")\<close>.\<close>

definition create_html_report ::
  "'fs operating_system \<Rightarrow> visualizer \<Rightarrow> string \<Rightarrow> 'fs \<Rightarrow> string \<Rightarrow>
   'fs \<times> (py_error + string)" where
  "create_html_report os self today fs output_file =
     (case create_all_visualizations os self fs of
        (fs1, Inl e) \<Rightarrow> (fs1, Inl e)
      | (fs1, Inr _) \<Rightarrow>
          (let output_path = os_path_join (self_output_dir self) output_file
           in case open_write os fs1 output_path (Html (total_count (self_analysis self)) today) of
                (fs2, Inl e) \<Rightarrow> (fs2, Inl e)
              | (fs2, Inr _) \<Rightarrow> (fs2, Inr output_path)))"

subsection \<open>\<open>main\<close> of the renderer\<close>

text \<open>
  A printed line is a string, or \<open>print(f"ERROR: {str(e)}")\<close> for a caught exception
  \<open>e\<close>, whose text is the library's. The three \<open>except\<close> clauses: every exception of
  the model is an \<open>Exception\<close>, so the last clause catches what the first two leave and
  nothing leaves \<open>main\<close>; the third component of the result is the uncaught exception.
\<close>

datatype line = Line string | ErrorLine py_error

definition except_clauses :: "string \<Rightarrow> py_error \<Rightarrow> line list \<times> py_error option" where
  "except_clauses analysis_arg e =
     (case e of
        FileNotFoundError _ \<Rightarrow>
          ([Line (''ERROR: Analysis file '' @ [CHR 0x27] @ analysis_arg @ [CHR 0x27] @ '' not found.''),
            Line ''Run the search tool with --analyze flag first.''], None)
      | JSONDecodeError \<Rightarrow>
          ([Line (''ERROR: '' @ [CHR 0x27] @ analysis_arg @ [CHR 0x27] @ '' is not a valid JSON file.'')],
           None)
      | _ \<Rightarrow> ([ErrorLine e], None))"

definition main ::
  "'fs operating_system \<Rightarrow> bool \<Rightarrow> (string \<Rightarrow> analysis option) \<Rightarrow> string \<Rightarrow> 'fs \<Rightarrow>
   string \<Rightarrow> string \<Rightarrow> string \<Rightarrow> 'fs \<times> line list \<times> py_error option" where
  "main os HAS_MATPLOTLIB json_load today fs analysis_arg output_dir_arg report_arg =
     (if \<not> HAS_MATPLOTLIB
      then (fs, [Line ''ERROR: matplotlib is required for visualization'',
                 Line ''Install it with: pip install matplotlib''], None)
      else
        case ResultsVisualizer os HAS_MATPLOTLIB json_load fs analysis_arg output_dir_arg of
          (fs1, Inl e) \<Rightarrow> (fs1, except_clauses analysis_arg e)
        | (fs1, Inr visualizer) \<Rightarrow>
            (case create_html_report os visualizer today fs1 report_arg of
               (fs2, Inl e) \<Rightarrow> (fs2, except_clauses analysis_arg e)
             | (fs2, Inr report_path) \<Rightarrow>
                 (let printed = [Line (''Report generated at: '' @ report_path),
                                 Line ''Individual visualizations:'']
                  in case create_all_visualizations os visualizer fs2 of
                       (fs3, Inl e) \<Rightarrow>
                         (fs3, printed @ fst (except_clauses analysis_arg e),
                          snd (except_clauses analysis_arg e))
                     | (fs3, Inr viz_paths) \<Rightarrow>
                         (fs3, printed @ map (\<lambda>viz_path. Line (''  - '' @ viz_path)) viz_paths,
                          None))))"

section \<open>Worked examples\<close>

text \<open>The records of the examples: an identifier, a language and a star count.\<close>

definition example_repo :: "int \<Rightarrow> string option \<Rightarrow> int option \<Rightarrow> repo" where
  "example_repo i lang stars =
     \<lparr>repo_id = i, language = lang, repo_topics = None, created_at = None,
      stargazers_count = stars\<rparr>"

text \<open>Five concatenated results; the first and the fifth share the identifier 42.\<close>

definition duplicated_results :: "repo list" where
  "duplicated_results =
     [example_repo 42 (Some ''Python'') (Some 10),
      example_repo 7 None (Some 3),
      example_repo 8 (Some ''Rust'') None,
      example_repo 9 (Some ''Python'') (Some 700),
      example_repo 42 (Some ''Go'') (Some 99)]"

text \<open>
  The specification's reading of the derived name, for comparison with
  \<open>analysis_file_for\<close>: the suffix \<open>_analysis\<close> inserted immediately before the
  extension (the part from the last dot on; at the end of a name that has no dot).
\<close>

definition spec_insert_before_extension :: "string \<Rightarrow> string" where
  "spec_insert_before_extension name =
     (if CHR ''.'' \<in> set name
      then rev (tl (dropWhile (\<lambda>c. c \<noteq> CHR ''.'') (rev name))) @ ''_analysis.'' @
           rev (takeWhile (\<lambda>c. c \<noteq> CHR ''.'') (rev name))
      else name @ ''_analysis'')"

text \<open>An API that is out of quota: every request is answered with status 403.\<close>

definition forbidden_api :: "request \<Rightarrow> response" where
  "forbidden_api params =
     \<lparr>status_code = 403, body_text = ''rate limit exceeded'', json_items = None\<rparr>"

text \<open>
  An operating system for the examples: a disk with one directory whose entries, files
  and directories, have plain names. It refuses every other path (one with a slash,
  \<open>.\<close> and \<open>..\<close>) with \<open>PermissionError\<close>, so that the examples say nothing about
  such paths; on a plain name it answers as POSIX does: the empty path names nothing, an
  existing name cannot be created again, a directory cannot be opened as a file.
\<close>

record disk =
  dirs :: "string set"
  files :: "string \<rightharpoonup> file_content"

definition plain_name :: "string \<Rightarrow> bool" where
  "plain_name p = (p \<noteq> [] \<and> CHR ''/'' \<notin> set p \<and> p \<noteq> ''.'' \<and> p \<noteq> ''..'')"

definition disk_exists :: "disk \<Rightarrow> string \<Rightarrow> bool" where
  "disk_exists fs p = (plain_name p \<and> (p \<in> dirs fs \<or> files fs p \<noteq> None))"

definition disk_makedirs :: "disk \<Rightarrow> string \<Rightarrow> disk \<times> (py_error + unit)" where
  "disk_makedirs fs p =
     (if p = [] then (fs, Inl (FileNotFoundError p))
      else if \<not> plain_name p then (fs, Inl (PermissionError p))
      else if p \<in> dirs fs \<or> files fs p \<noteq> None then (fs, Inl (FileExistsError p))
      else (fs\<lparr>dirs := insert p (dirs fs)\<rparr>, Inr ()))"

definition disk_open_read :: "disk \<Rightarrow> string \<Rightarrow> py_error + file_content" where
  "disk_open_read fs p =
     (if p = [] then Inl (FileNotFoundError p)
      else if \<not> plain_name p then Inl (PermissionError p)
      else case files fs p of
             Some c \<Rightarrow> Inr c
           | None \<Rightarrow> if p \<in> dirs fs then Inl (IsADirectoryError p) else Inl (FileNotFoundError p))"

definition disk_open_write :: "disk \<Rightarrow> string \<Rightarrow> file_content \<Rightarrow> disk \<times> (py_error + unit)" where
  "disk_open_write fs p c =
     (if p = [] then (fs, Inl (FileNotFoundError p))
      else if \<not> plain_name p then (fs, Inl (PermissionError p))
      else if p \<in> dirs fs then (fs, Inl (IsADirectoryError p))
      else (fs\<lparr>files := (files fs)(p \<mapsto> c)\<rparr>, Inr ()))"

definition disk_os :: "disk operating_system" where
  "disk_os =
     \<lparr>path_exists = disk_exists, makedirs = disk_makedirs, open_read = disk_open_read,
      open_write = disk_open_write\<rparr>"

text \<open>An empty disk, and a decoder of the analysis file that accepts nothing.\<close>

definition empty_disk :: disk where
  "empty_disk = \<lparr>dirs = {}, files = Map.empty\<rparr>"

definition no_json :: "string \<Rightarrow> analysis option" where
  "no_json s = None"

text \<open>Scenario 4 of the specification: a distribution whose first bucket is empty.\<close>

definition sparse_distribution :: "(string, nat) dict" where
  "sparse_distribution =
     [(''0-10'', 0), (''11-50'', 3), (''51-100'', 0), (''101-500'', 2),
      (''501-1000'', 0), (''1001+'', 1)]"

section \<open>Notions used to state the properties of the analysis\<close>

text \<open>
  Every distinct element of a list with the number of its occurrences, in the order of
  first appearance (\<open>remdups\<close> keeps the last copy, hence the two reversals).
\<close>

definition occurrence_counts :: "'a list \<Rightarrow> ('a, nat) dict" where
  "occurrence_counts xs = map (\<lambda>x. (x, count_list xs x)) (rev (remdups (rev xs)))"

text \<open>
  What a collection offers to each statistic, in input order: the languages that are
  neither missing nor empty, the topics, and the years of the creation timestamps.
\<close>

definition counted_languages :: "repo list \<Rightarrow> string list" where
  "counted_languages rs =
     concat (map (\<lambda>r. case language r of None \<Rightarrow> [] | Some l \<Rightarrow> if l \<noteq> [] then [l] else []) rs)"

definition counted_topics :: "repo list \<Rightarrow> string list" where
  "counted_topics rs = concat (map (\<lambda>r. case repo_topics r of None \<Rightarrow> [] | Some ts \<Rightarrow> ts) rs)"

definition counted_years :: "(string \<Rightarrow> nat option) \<Rightarrow> repo list \<Rightarrow> nat list" where
  "counted_years strptime_year rs =
     concat (map (\<lambda>r. case created_at r of
                         None \<Rightarrow> []
                       | Some s \<Rightarrow> (case strptime_year s of None \<Rightarrow> [] | Some y \<Rightarrow> [y])) rs)"

text \<open>Every creation timestamp of the collection is one that \<open>strptime\<close> accepts.\<close>

definition timestamps_parse :: "(string \<Rightarrow> nat option) \<Rightarrow> repo list \<Rightarrow> bool" where
  "timestamps_parse strptime_year rs =
     list_all (\<lambda>r. case created_at r of None \<Rightarrow> True | Some s \<Rightarrow> strptime_year s \<noteq> None) rs"

text \<open>
  Scenarios 1 and 3 of the specification: three records with 5, 50 and 2000 stars, the
  second without a language.
\<close>

definition three_star_repos :: "repo list" where
  "three_star_repos =
     [example_repo 1 (Some ''Python'') (Some 5),
      example_repo 2 None (Some 50),
      example_repo 3 (Some ''Python'') (Some 2000)]"

text \<open>
  Three records with topics and creation timestamps, and a \<open>strptime\<close> that knows their
  two timestamps.
\<close>

definition example_strptime_year :: "string \<Rightarrow> nat option" where
  "example_strptime_year s =
     map_of [(''2021-03-04T05:06:07Z'', 2021), (''2019-11-30T23:59:59Z'', 2019)] s"

definition dated_repos :: "repo list" where
  "dated_repos =
     [\<lparr>repo_id = 1, language = Some ''Rust'', repo_topics = Some [''nlp'', ''poetry''],
       created_at = Some ''2021-03-04T05:06:07Z'', stargazers_count = Some 120\<rparr>,
      \<lparr>repo_id = 2, language = Some ''Python'', repo_topics = Some [''poetry''],
       created_at = Some ''2019-11-30T23:59:59Z'', stargazers_count = Some 7\<rparr>,
      \<lparr>repo_id = 3, language = Some ''Python'', repo_topics = None,
       created_at = Some ''2021-03-04T05:06:07Z'', stargazers_count = None\<rparr>]"

section \<open>Properties\<close>

subsection \<open>Dictionaries\<close>

lemma dict_contains_iff: "dict_contains d k \<longleftrightarrow> k \<in> fst ` set d"
  by (simp add: dict_contains_def map_of_eq_None_iff)

lemma dict_set_new: "k \<notin> fst ` set d \<Longrightarrow> dict_set d k v = d @ [(k, v)]"
  by (induction d) auto

subsection \<open>Deduplication\<close>

lemma first_positions_shift:
  "{j. Suc j \<in> {i. i < length (r # rs) \<and> f ((r # rs) ! i) \<notin> K \<and>
                    (\<forall>j<i. f ((r # rs) ! j) \<noteq> f ((r # rs) ! i))}} =
   {i. i < length rs \<and> f (rs ! i) \<notin> insert (f r) K \<and> (\<forall>j<i. f (rs ! j) \<noteq> f (rs ! i))}"
  by (auto simp: less_Suc_eq_0_disj)

text \<open>
  The loop appends to \<open>unique_repos\<close> the records at the positions that hold an
  identifier for the first time, those already in \<open>unique_repos\<close> apart.
\<close>

lemma remove_duplicates_nths:
  "remove_duplicates rs acc =
     acc @ map (\<lambda>r. (repo_id r, r))
       (nths rs {i. i < length rs \<and> repo_id (rs ! i) \<notin> fst ` set acc \<and>
                    (\<forall>j<i. repo_id (rs ! j) \<noteq> repo_id (rs ! i))})"
proof (induction rs arbitrary: acc)
  case Nil
  then show ?case by simp
next
  case (Cons r rs)
  let ?K = "fst ` set acc"
  show ?case
  proof (cases "repo_id r \<in> ?K")
    case True
    then have "insert (repo_id r) ?K = ?K" by auto
    with True show ?thesis
      using Cons.IH [of acc] first_positions_shift [of r rs repo_id ?K]
      by (simp add: nths_Cons dict_contains_iff)
  next
    case False
    then show ?thesis
      using Cons.IH [of "acc @ [(repo_id r, r)]"] first_positions_shift [of r rs repo_id ?K]
      by (simp add: nths_Cons dict_contains_iff dict_set_new)
  qed
qed

lemma remove_duplicates_distinct:
  "distinct (map fst acc) \<Longrightarrow> distinct (map fst (remove_duplicates rs acc))"
  by (induction rs arbitrary: acc) (auto simp: dict_contains_iff dict_set_new)

lemma remove_duplicates_keys:
  "fst ` set (remove_duplicates rs acc) = fst ` set acc \<union> repo_id ` set rs"
  by (induction rs arbitrary: acc) (auto simp: dict_contains_iff dict_set_new)

lemma remove_duplicates_first:
  "(k, r) \<in> set (remove_duplicates rs acc) \<Longrightarrow>
     (k, r) \<in> set acc \<or>
     (k = repo_id r \<and> k \<notin> fst ` set acc \<and> find (\<lambda>x. repo_id x = k) rs = Some r)"
proof (induction rs arbitrary: acc)
  case Nil
  then show ?case by simp
next
  case (Cons a rs)
  show ?case
  proof (cases "repo_id a \<in> fst ` set acc")
    case True
    with Cons.prems have "(k, r) \<in> set (remove_duplicates rs acc)"
      by (simp add: dict_contains_iff)
    from Cons.IH [OF this] True show ?thesis by auto
  next
    case False
    with Cons.prems have "(k, r) \<in> set (remove_duplicates rs (acc @ [(repo_id a, a)]))"
      by (simp add: dict_contains_iff dict_set_new)
    from Cons.IH [OF this] False show ?thesis by auto
  qed
qed

text \<open>
  C1. Deduplication keeps the first occurrence and the input order: the result of
  \<open>unique_items\<close> is the input restricted to the positions whose identifier occurs at no
  earlier position (\<open>nths\<close> keeps the order of the input). So the identifiers of the
  result are pairwise distinct, they are exactly the identifiers of the input, and every
  record of the result is the first record of the input with its identifier.
\<close>

theorem unique_items_first_occurrence:
  "unique_items rs =
     nths rs {i. i < length rs \<and> (\<forall>j<i. repo_id (rs ! j) \<noteq> repo_id (rs ! i))}
   \<and> distinct (map repo_id (unique_items rs))
   \<and> repo_id ` set (unique_items rs) = repo_id ` set rs
   \<and> (\<forall>r \<in> set (unique_items rs). find (\<lambda>x. repo_id x = repo_id r) rs = Some r)"
proof (intro conjI ballI)
  show "unique_items rs =
     nths rs {i. i < length rs \<and> (\<forall>j<i. repo_id (rs ! j) \<noteq> repo_id (rs ! i))}"
    by (simp add: unique_items_def dict_values_def remove_duplicates_nths [of rs "[]"] comp_def)
  have m: "map fst (remove_duplicates rs []) = map repo_id (unique_items rs)"
    by (simp add: unique_items_def dict_values_def remove_duplicates_nths [of rs "[]"] comp_def)
  show "distinct (map repo_id (unique_items rs))"
    using remove_duplicates_distinct [of "[]" rs] by (simp add: m)
  have "fst ` set (remove_duplicates rs []) = repo_id ` set (unique_items rs)"
    using m by (metis image_set)
  then show "repo_id ` set (unique_items rs) = repo_id ` set rs"
    using remove_duplicates_keys [of rs "[]"] by simp
next
  fix r
  assume "r \<in> set (unique_items rs)"
  then obtain k where "(k, r) \<in> set (remove_duplicates rs [])"
    by (auto simp: unique_items_def dict_values_def)
  from remove_duplicates_first [OF this]
  show "find (\<lambda>x. repo_id x = repo_id r) rs = Some r" by auto
qed

text \<open>
  Scenario 2 of the specification: of the two records with identifier 42, at the first
  and the fifth position, the result keeps the first.
\<close>

theorem unique_items_first_occurrence_witness:
  "unique_items duplicated_results =
     [example_repo 42 (Some ''Python'') (Some 10), example_repo 7 None (Some 3),
      example_repo 8 (Some ''Rust'') None, example_repo 9 (Some ''Python'') (Some 700)]
   \<and> nths duplicated_results
       {i. i < length duplicated_results \<and>
           (\<forall>j<i. repo_id (duplicated_results ! j) \<noteq> repo_id (duplicated_results ! i))} =
     [example_repo 42 (Some ''Python'') (Some 10), example_repo 7 None (Some 3),
      example_repo 8 (Some ''Rust'') None, example_repo 9 (Some ''Python'') (Some 700)]
   \<and> find (\<lambda>x. repo_id x = 42) duplicated_results = Some (example_repo 42 (Some ''Python'') (Some 10))"
proof -
  have e: "unique_items duplicated_results =
     [example_repo 42 (Some ''Python'') (Some 10), example_repo 7 None (Some 3),
      example_repo 8 (Some ''Rust'') None, example_repo 9 (Some ''Python'') (Some 700)]"
    by (simp add: unique_items_def duplicated_results_def dict_values_def dict_contains_def
        example_repo_def)
  have f: "find (\<lambda>x. repo_id x = 42) duplicated_results =
      Some (example_repo 42 (Some ''Python'') (Some 10))"
    by (simp add: duplicated_results_def example_repo_def)
  show ?thesis
    using unique_items_first_occurrence [of duplicated_results] e f by simp
qed

subsection \<open>\<open>str\<close> of a number\<close>

lemma digit_char_simps:
  "digit_char 0 = CHR ''0''" "digit_char 1 = CHR ''1''" "digit_char 2 = CHR ''2''"
  "digit_char 3 = CHR ''3''" "digit_char 4 = CHR ''4''" "digit_char 5 = CHR ''5''"
  "digit_char 6 = CHR ''6''" "digit_char 7 = CHR ''7''" "digit_char 8 = CHR ''8''"
  "digit_char 9 = CHR ''9''"
  by code_simp+

subsection \<open>The query runner\<close>

text \<open>What one query adds to \<open>all_results\<close>.\<close>

lemma search_loop_concat:
  "search_loop self http per_page page qs (evs, all_results) =
     (evs @ concat (map (\<lambda>q. Print (''Searching for: '' @ q) #
                           fst (search_repositories self http q per_page page) @ [Sleep 2]) qs),
      all_results @ concat (map (\<lambda>q. case snd (search_repositories self http q per_page page) of
                                       Some items \<Rightarrow> items | None \<Rightarrow> []) qs))"
proof (induction qs arbitrary: evs all_results)
  case Nil
  then show ?case by simp
next
  case (Cons q qs)
  obtain evs' results where s: "search_repositories self http q per_page page = (evs', results)"
    by (cases "search_repositories self http q per_page page")
  show ?case
    by (cases results) (simp_all add: s Cons.IH)
qed

lemma search_repositories_items:
  "(case snd (search_repositories self http q per_page page) of
      Some items \<Rightarrow> items | None \<Rightarrow> []) =
   (if status_code (http (search_params self q per_page page)) \<noteq> 200 then []
    else case json_items (http (search_params self q per_page page)) of
           Some items \<Rightarrow> items | None \<Rightarrow> [])"
  by (simp add: search_repositories_def Let_def)

lemma search_repositories_gets:
  "filter (\<lambda>e. case e of Get _ \<Rightarrow> True | _ \<Rightarrow> False)
     (fst (search_repositories self http q per_page page)) =
   [Get (search_params self q per_page page)]"
  by (simp add: search_repositories_def Let_def)

text \<open>
  C8. A response whose status is not 200 makes \<open>search_repositories\<close> print the status
  code and the body and return an empty \<open>items\<close> list. In
  \<open>find_llm_literature_projects\<close> every one of the ten queries is sent, in order,
  whatever the statuses of the earlier ones, and the collection is the deduplication of
  the concatenated item lists, a query with a status other than 200 adding nothing.
\<close>

theorem failed_request_contributes_nothing:
  "(status_code (http (search_params self query per_page page)) \<noteq> 200 \<longrightarrow>
      search_repositories self http query per_page page =
        ([Get (search_params self query per_page page),
          Print (''Error: '' @ str_int (status_code (http (search_params self query per_page page)))),
          Print (body_text (http (search_params self query per_page page)))],
         Some []))
   \<and> filter (\<lambda>e. case e of Get _ \<Rightarrow> True | _ \<Rightarrow> False)
        (fst (find_llm_literature_projects self http page per_page)) =
      map (\<lambda>q. Get (search_params self q per_page page)) queries
   \<and> snd (find_llm_literature_projects self http page per_page) =
      unique_items (concat (map
        (\<lambda>q. if status_code (http (search_params self q per_page page)) \<noteq> 200 then []
             else case json_items (http (search_params self q per_page page)) of
                    Some items \<Rightarrow> items | None \<Rightarrow> [])
        queries))"
proof (intro conjI impI)
  assume "status_code (http (search_params self query per_page page)) \<noteq> 200"
  then show "search_repositories self http query per_page page =
        ([Get (search_params self query per_page page),
          Print (''Error: '' @ str_int (status_code (http (search_params self query per_page page)))),
          Print (body_text (http (search_params self query per_page page)))],
         Some [])"
    by (simp add: search_repositories_def Let_def)
next
  have g: "filter (\<lambda>e. case e of Get _ \<Rightarrow> True | _ \<Rightarrow> False)
      (concat (map (\<lambda>q. Print (f q) #
                        fst (search_repositories self http q per_page page) @ [Sleep 2]) qs)) =
      map (\<lambda>q. Get (search_params self q per_page page)) qs" for qs f
    by (induction qs) (simp_all add: search_repositories_gets)
  show "filter (\<lambda>e. case e of Get _ \<Rightarrow> True | _ \<Rightarrow> False)
        (fst (find_llm_literature_projects self http page per_page)) =
      map (\<lambda>q. Get (search_params self q per_page page)) queries"
    by (simp add: find_llm_literature_projects_def search_loop_concat g)
next
  show "snd (find_llm_literature_projects self http page per_page) =
      unique_items (concat (map
        (\<lambda>q. if status_code (http (search_params self q per_page page)) \<noteq> 200 then []
             else case json_items (http (search_params self q per_page page)) of
                    Some items \<Rightarrow> items | None \<Rightarrow> [])
        queries))"
    by (simp add: find_llm_literature_projects_def search_loop_concat search_repositories_items)
qed

text \<open>With every request refused the tool still sends its ten requests and finds nothing.\<close>

theorem failed_request_contributes_nothing_witness:
  "status_code (forbidden_api (search_params (GithubExplorer None) ''ai storytelling'' 30 1)) \<noteq> 200
   \<and> search_repositories (GithubExplorer None) forbidden_api ''ai storytelling'' 30 1 =
       ([Get (search_params (GithubExplorer None) ''ai storytelling'' 30 1),
         Print ''Error: 403'', Print ''rate limit exceeded''], Some [])
   \<and> length (filter (\<lambda>e. case e of Get _ \<Rightarrow> True | _ \<Rightarrow> False)
        (fst (find_llm_literature_projects (GithubExplorer None) forbidden_api 1 30))) = 10
   \<and> snd (find_llm_literature_projects (GithubExplorer None) forbidden_api 1 30) = []"
proof -
  have s: "status_code (forbidden_api p) \<noteq> 200" for p
    by (simp add: forbidden_api_def)
  have c: "str_int 403 = ''403''"
    by (simp add: str_int_def str_nat.simps digit_char_simps)
  have u: "unique_items (concat (map (\<lambda>q. []) qs)) = []" for qs :: "string list"
    by (induction qs) (simp_all add: unique_items_def dict_values_def)
  have l: "length queries = 10"
    by (simp add: queries_def)
  have b: "body_text (forbidden_api p) = ''rate limit exceeded''" 
    and d: "status_code (forbidden_api p) = 403" for p
    by (simp_all add: forbidden_api_def)
  show ?thesis
    using failed_request_contributes_nothing
      [of forbidden_api "GithubExplorer None" "''ai storytelling''" 30 1]
    by (simp add: s u l b d c)
qed

subsection \<open>The name of the analysis file\<close>

lemma str_replace_Nil: "old \<noteq> [] \<Longrightarrow> str_replace old new [] = []"
  by (simp add: str_replace.simps)

lemma str_replace_match:
  "old \<noteq> [] \<Longrightarrow> str_replace old new (old @ s) = new @ str_replace old new s"
  by (subst str_replace.simps) simp

lemma str_replace_skip:
  "old \<noteq> [] \<Longrightarrow> take (length old) (c # s) \<noteq> old \<Longrightarrow>
   str_replace old new (c # s) = c # str_replace old new s"
  by (subst str_replace.simps) simp

lemma sublist_take_drop: "take (length old) (drop i s) = old \<Longrightarrow> sublist old s"
  by (metis append_take_drop_id sublist_appendI)

lemma str_replace_absent:
  "old \<noteq> [] \<Longrightarrow> \<not> sublist old s \<Longrightarrow> str_replace old new s = s"
proof (induction s)
  case Nil
  then show ?case by (simp add: str_replace_Nil)
next
  case (Cons c s)
  have "take (length old) (c # s) \<noteq> old"
    using Cons.prems(2) sublist_take_drop [of old 0 "c # s"] by auto
  moreover have "\<not> sublist old s"
    using Cons.prems(2) by (auto simp: sublist_Cons_right)
  ultimately show ?case
    using Cons by (simp add: str_replace_skip)
qed

text \<open>
  An occurrence of \<open>.json\<close> that begins inside \<open>base\<close> lies inside \<open>base\<close>: the dot is
  the first character of the pattern only.
\<close>

lemma json_first_occurrence:
  "\<not> sublist ''.json'' base \<Longrightarrow>
   str_replace ''.json'' new (base @ ''.json'' @ s) = base @ new @ str_replace ''.json'' new s"
proof (induction base)
  case Nil
  then show ?case
    using str_replace_match [of "''.json''" new s] by simp
next
  case (Cons c base)
  have n: "\<not> sublist ''.json'' base"
    using Cons.prems by (auto simp: sublist_Cons_right)
  have t: "take (length ''.json'') (c # (base @ ''.json'' @ s)) \<noteq> ''.json''"
  proof
    assume "take (length ''.json'') (c # (base @ ''.json'' @ s)) = ''.json''"
    then have a: "take 5 ((c # base) @ ''.json'' @ s) = ''.json''"
      by (simp add: eval_nat_numeral)
    show False
    proof (cases "4 \<le> length base")
      case True
      then have "take 5 (c # base) = ''.json''"
        using a by simp
      then have "sublist ''.json'' (c # base)"
        by (metis append_Nil append_take_drop_id sublist_appendI)
      with Cons.prems show False by simp
    next
      case False
      then consider "base = []" | x where "base = [x]" | x y where "base = [x, y]"
        | x y z where "base = [x, y, z]"
        by (cases base; simp; cases "tl base"; simp; cases "tl (tl base)"; simp;
            cases "tl (tl (tl base))"; simp)
      then show False
        using a by cases auto
    qed
  qed
  have ne: "''.json'' \<noteq> []"
    by simp
  have "str_replace ''.json'' new ((c # base) @ ''.json'' @ s) =
        c # str_replace ''.json'' new (base @ ''.json'' @ s)"
    using str_replace_skip [OF ne t, of new] by simp
  also have "\<dots> = c # (base @ new @ str_replace ''.json'' new s)"
    using Cons.IH [OF n] by simp
  finally show ?case
    by simp
qed

text \<open>
  Where the output name ends in \<open>.json\<close> and has no other occurrence of it, the derived
  name has \<open>_analysis\<close> immediately before the extension.
\<close>

lemma analysis_file_for_json_name:
  "\<not> sublist ''.json'' base \<Longrightarrow> analysis_file_for (base @ ''.json'') = base @ ''_analysis.json''"
  using json_first_occurrence [of base "''_analysis.json''" "[]"]
  by (simp add: analysis_file_for_def str_replace_Nil)

lemma analysis_file_for_default:
  "analysis_file_for ''llm_literature_repos.json'' = ''llm_literature_repos_analysis.json''"
proof -
  have "\<not> sublist ''.json'' ''llm_literature_repos''"
    by (simp add: sublist_code)
  from analysis_file_for_json_name [OF this] show ?thesis
    by simp
qed

text \<open>
  C5. The claim asks for \<open>_analysis\<close> immediately before the extension of every output
  name, and the code misses it: \<open>main\<close> replaces the text \<open>.json\<close> wherever it occurs.
  For the output name \<open>repos.txt\<close> nothing is replaced, so the name of the analysis file
  is \<open>repos.txt\<close> itself, where the specification's reading gives
  \<open>repos_analysis.txt\<close>: the analysis is written over the collection that \<open>save_results\<close>
  has just saved under that name. For \<open>my.json.bak\<close> the suffix lands in the middle of
  the name, not before the extension \<open>.bak\<close>.
\<close>

theorem analysis_file_for_misses_extension:
  "analysis_file_for ''repos.txt'' = ''repos.txt''
   \<and> spec_insert_before_extension ''repos.txt'' = ''repos_analysis.txt''
   \<and> analysis_file_for ''my.json.bak'' = ''my_analysis.json.bak''
   \<and> spec_insert_before_extension ''my.json.bak'' = ''my.json_analysis.bak''
   \<and> analysis_file_for ''repos.txt'' \<noteq> spec_insert_before_extension ''repos.txt''
   \<and> analysis_file_for ''my.json.bak'' \<noteq> spec_insert_before_extension ''my.json.bak''"
  by (simp add: analysis_file_for_def str_replace.simps spec_insert_before_extension_def)

subsection \<open>The pie chart of the star distribution\<close>

lemma filter_zero_filter:
  "filter_zero kvs (fl, fs) =
     (fl @ map fst (filter (\<lambda>kv. 0 < snd kv) kvs), fs @ map snd (filter (\<lambda>kv. 0 < snd kv) kvs))"
  by (induction kvs arbitrary: fl fs) auto

lemma sum_list_positive_part:
  "sum_list (map snd (filter (\<lambda>kv. 0 < snd kv) (kvs :: ('k \<times> nat) list))) = sum_list (map snd kvs)"
  by (induction kvs) auto

text \<open>
  C7. The pie chart receives exactly the buckets with a positive count, in the order of
  the distribution, each label with its own count, and the format \<open>%1.1f%%\<close> for the
  percentage labels. The sizes it receives are all positive and add up to the sum of all
  the counts, so the total of which \<open>plt.pie\<close> computes the percentages is the total of
  the non-zero buckets. \<open>visualize_stars_distribution\<close> saves this chart as
  \<open>stars_distribution.png\<close> in the output directory, whatever the operating system.
\<close>

theorem stars_pie_omits_zero_buckets:
  "stars_pie stars =
     Pie (map snd (filter (\<lambda>kv. 0 < snd kv) stars))
         (map fst (filter (\<lambda>kv. 0 < snd kv) stars)) ''%1.1f%%''
   \<and> list_all (\<lambda>sz. 0 < sz) (map snd (filter (\<lambda>kv. 0 < snd kv) stars))
   \<and> sum_list (map snd (filter (\<lambda>kv. 0 < snd kv) stars)) = sum_list (dict_values stars)
   \<and> visualize_stars_distribution os self fs =
       savefig os fs (os_path_join (self_output_dir self) ''stars_distribution.png'')
         (Pie (map snd (filter (\<lambda>kv. 0 < snd kv) (stars_distribution (self_analysis self))))
              (map fst (filter (\<lambda>kv. 0 < snd kv) (stars_distribution (self_analysis self))))
              ''%1.1f%%'')"
proof -
  have p: "stars_pie d =
     Pie (map snd (filter (\<lambda>kv. 0 < snd kv) d)) (map fst (filter (\<lambda>kv. 0 < snd kv) d))
       ''%1.1f%%''" for d
    by (simp add: stars_pie_def dict_keys_def dict_values_def zip_map_fst_snd filter_zero_filter)
  have "list_all (\<lambda>sz. 0 < sz) (map snd (filter (\<lambda>kv. 0 < snd kv) stars))"
    by (simp add: list_all_iff)
  then show ?thesis
    by (simp add: p visualize_stars_distribution_def sum_list_positive_part dict_values_def)
qed

text \<open>Scenario 4: the chart has no slice for the empty buckets.\<close>

theorem stars_pie_omits_zero_buckets_witness:
  "stars_pie sparse_distribution = Pie [3, 2, 1] [''11-50'', ''101-500'', ''1001+''] ''%1.1f%%''"
  using stars_pie_omits_zero_buckets [where stars = sparse_distribution and os = disk_os,
      THEN conjunct1]
  by (simp add: sparse_distribution_def)

subsection \<open>A missing analysis file\<close>

lemma ResultsVisualizer_open_fails:
  assumes "HAS_MATPLOTLIB"
    and "ensure_output_dir os fs output_dir = (fs', Inr u)"
    and "open_read os fs' analysis_file = Inl e"
  shows "ResultsVisualizer os HAS_MATPLOTLIB json_load fs analysis_file output_dir = (fs', Inl e)"
  using assms by (simp add: ResultsVisualizer_def)

lemma ResultsVisualizer_makedirs_fails:
  assumes "HAS_MATPLOTLIB"
    and "ensure_output_dir os fs output_dir = (fs', Inl e)"
  shows "ResultsVisualizer os HAS_MATPLOTLIB json_load fs analysis_file output_dir = (fs', Inl e)"
  using assms by (simp add: ResultsVisualizer_def)

text \<open>Whatever the constructor returns, the file system is as \<open>ensure_output_dir\<close> left it.\<close>

lemma ResultsVisualizer_state:
  "HAS_MATPLOTLIB \<Longrightarrow>
   fst (ResultsVisualizer os HAS_MATPLOTLIB json_load fs analysis_file output_dir) =
   fst (ensure_output_dir os fs output_dir)"
  by (simp add: ResultsVisualizer_def
      split: prod.splits sum.splits file_content.splits option.splits)

lemma main_constructor_fails:
  assumes "HAS_MATPLOTLIB"
    and "ResultsVisualizer os HAS_MATPLOTLIB json_load fs analysis_file output_dir = (fs', Inl e)"
  shows "main os HAS_MATPLOTLIB json_load today fs analysis_file output_dir report =
     (fs', except_clauses analysis_file e)"
  using assms by (simp add: main_def)

lemma except_clauses_uncaught: "snd (except_clauses analysis_arg e) = None"
  by (cases e) (simp_all add: except_clauses_def)

text \<open>
  C6 (as the code has it). With \<open>matplotlib\<close> present, a constructor whose \<open>open\<close> of the
  analysis file raises \<open>FileNotFoundError\<close>, which is what \<open>open\<close> does when the path
  names nothing once the output directory is there, fails with that error, and so does
  one whose \<open>os.makedirs\<close> raises it. Then \<open>main\<close> prints the two lines of its first
  \<open>except\<close> clause and returns with no exception left. Whenever the constructor fails,
  \<open>main\<close> writes nothing: the file system it leaves is the one left by the creation of
  the output directory, so no chart image has been created. All this holds for every
  operating system.
\<close>

theorem missing_analysis_file_reported:
  assumes "HAS_MATPLOTLIB"
  shows "(ensure_output_dir os fs output_dir = (fs', Inr ()) \<longrightarrow>
          open_read os fs' analysis_file = Inl (FileNotFoundError p) \<longrightarrow>
            ResultsVisualizer os HAS_MATPLOTLIB json_load fs analysis_file output_dir =
              (fs', Inl (FileNotFoundError p))
            \<and> main os HAS_MATPLOTLIB json_load today fs analysis_file output_dir report =
              (fs',
               [Line (''ERROR: Analysis file '' @ [CHR 0x27] @ analysis_file @ [CHR 0x27] @
                      '' not found.''),
                Line ''Run the search tool with --analyze flag first.''], None))
    \<and> (ensure_output_dir os fs output_dir = (fs', Inl (FileNotFoundError p)) \<longrightarrow>
            ResultsVisualizer os HAS_MATPLOTLIB json_load fs analysis_file output_dir =
              (fs', Inl (FileNotFoundError p))
            \<and> main os HAS_MATPLOTLIB json_load today fs analysis_file output_dir report =
              (fs',
               [Line (''ERROR: Analysis file '' @ [CHR 0x27] @ analysis_file @ [CHR 0x27] @
                      '' not found.''),
                Line ''Run the search tool with --analyze flag first.''], None))
    \<and> (snd (ResultsVisualizer os HAS_MATPLOTLIB json_load fs analysis_file output_dir) = Inl e \<longrightarrow>
            fst (main os HAS_MATPLOTLIB json_load today fs analysis_file output_dir report) =
              fst (ensure_output_dir os fs output_dir)
            \<and> snd (snd (main os HAS_MATPLOTLIB json_load today fs analysis_file output_dir report)) =
              None)"
proof (intro conjI impI)
  assume a: "ensure_output_dir os fs output_dir = (fs', Inr ())"
    and b: "open_read os fs' analysis_file = Inl (FileNotFoundError p)"
  show r: "ResultsVisualizer os HAS_MATPLOTLIB json_load fs analysis_file output_dir =
      (fs', Inl (FileNotFoundError p))"
    by (rule ResultsVisualizer_open_fails [OF assms a b])
  show "main os HAS_MATPLOTLIB json_load today fs analysis_file output_dir report =
      (fs',
       [Line (''ERROR: Analysis file '' @ [CHR 0x27] @ analysis_file @ [CHR 0x27] @
              '' not found.''),
        Line ''Run the search tool with --analyze flag first.''], None)"
    unfolding main_constructor_fails [OF assms r] by (simp add: except_clauses_def)
next
  assume a: "ensure_output_dir os fs output_dir = (fs', Inl (FileNotFoundError p))"
  show r: "ResultsVisualizer os HAS_MATPLOTLIB json_load fs analysis_file output_dir =
      (fs', Inl (FileNotFoundError p))"
    by (rule ResultsVisualizer_makedirs_fails [OF assms a])
  show "main os HAS_MATPLOTLIB json_load today fs analysis_file output_dir report =
      (fs',
       [Line (''ERROR: Analysis file '' @ [CHR 0x27] @ analysis_file @ [CHR 0x27] @
              '' not found.''),
        Line ''Run the search tool with --analyze flag first.''], None)"
    unfolding main_constructor_fails [OF assms r] by (simp add: except_clauses_def)
next
  assume f: "snd (ResultsVisualizer os HAS_MATPLOTLIB json_load fs analysis_file output_dir) = Inl e"
  then have r: "ResultsVisualizer os HAS_MATPLOTLIB json_load fs analysis_file output_dir =
      (fst (ensure_output_dir os fs output_dir), Inl e)"
    using ResultsVisualizer_state [OF assms, of os json_load fs analysis_file output_dir]
    by (simp add: prod_eq_iff)
  show "fst (main os HAS_MATPLOTLIB json_load today fs analysis_file output_dir report) =
      fst (ensure_output_dir os fs output_dir)"
    unfolding main_constructor_fails [OF assms r] by simp
  show "snd (snd (main os HAS_MATPLOTLIB json_load today fs analysis_file output_dir report)) =
      None"
    unfolding main_constructor_fails [OF assms r] by (simp add: except_clauses_uncaught)
qed

lemma disk_first_run:
  "ensure_output_dir disk_os empty_disk ''visualizations'' =
     (\<lparr>dirs = {''visualizations''}, files = Map.empty\<rparr>, Inr ())"
  "open_read disk_os \<lparr>dirs = {''visualizations''}, files = Map.empty\<rparr> ''missing.json'' =
     Inl (FileNotFoundError ''missing.json'')"
  "\<not> path_exists disk_os empty_disk ''visualizations''"
  "makedirs disk_os empty_disk ''visualizations'' =
     (\<lparr>dirs = {''visualizations''}, files = Map.empty\<rparr>, Inr ())"
  "\<not> path_exists disk_os empty_disk ''missing.json''"
  by (simp_all add: ensure_output_dir_def disk_os_def disk_exists_def disk_makedirs_def
      disk_open_read_def plain_name_def empty_disk_def)

text \<open>
  On the empty disk: the directory \<open>visualizations\<close> is created, the file
  \<open>missing.json\<close> is not found, the two lines are printed and the disk holds the new
  directory and no file.
\<close>

theorem missing_analysis_file_reported_witness:
  "ensure_output_dir disk_os empty_disk ''visualizations'' =
     (\<lparr>dirs = {''visualizations''}, files = Map.empty\<rparr>, Inr ())
   \<and> open_read disk_os \<lparr>dirs = {''visualizations''}, files = Map.empty\<rparr> ''missing.json'' =
       Inl (FileNotFoundError ''missing.json'')
   \<and> ResultsVisualizer disk_os True no_json empty_disk ''missing.json'' ''visualizations'' =
       (\<lparr>dirs = {''visualizations''}, files = Map.empty\<rparr>, Inl (FileNotFoundError ''missing.json''))
   \<and> main disk_os True no_json ''2026-01-01'' empty_disk ''missing.json'' ''visualizations''
        ''report.html'' =
       (\<lparr>dirs = {''visualizations''}, files = Map.empty\<rparr>,
        [Line (''ERROR: Analysis file '' @ [CHR 0x27] @ ''missing.json'' @ [CHR 0x27] @ '' not found.''),
         Line ''Run the search tool with --analyze flag first.''], None)"
  using missing_analysis_file_reported
    [where HAS_MATPLOTLIB = True and os = disk_os and fs = empty_disk
      and output_dir = "''visualizations''" and analysis_file = "''missing.json''"
      and fs' = "\<lparr>dirs = {''visualizations''}, files = Map.empty\<rparr>" and p = "''missing.json''"
      and json_load = no_json and today = "''2026-01-01''" and report = "''report.html''"]
    disk_first_run(1,2)
  by simp

text \<open>
  C6 as the specification states it fails: a path that does not exist when the tool
  starts need not be missing when it is opened, because the output directory is created
  first. With the analysis path \<open>out\<close> and the output directory \<open>out\<close> on an empty disk
  the constructor creates the directory and \<open>open\<close> raises \<open>IsADirectoryError\<close>, which
  the last \<open>except\<close> clause reports.
\<close>

theorem missing_analysis_file_counterexample:
  "\<not> path_exists disk_os empty_disk ''out''
   \<and> ResultsVisualizer disk_os True no_json empty_disk ''out'' ''out'' =
       (\<lparr>dirs = {''out''}, files = Map.empty\<rparr>, Inl (IsADirectoryError ''out''))
   \<and> snd (main disk_os True no_json ''2026-01-01'' empty_disk ''out'' ''out'' ''report.html'') =
       ([ErrorLine (IsADirectoryError ''out'')], None)"
  by (simp add: ResultsVisualizer_def ensure_output_dir_def disk_os_def disk_exists_def
      disk_makedirs_def disk_open_read_def plain_name_def empty_disk_def main_def
      except_clauses_def)

subsection \<open>The constructor's side effect\<close>

text \<open>
  C10 (as the code has it). With \<open>matplotlib\<close> present, the constructor calls
  \<open>os.makedirs\<close> for an output directory that does not exist before it opens the
  analysis file. When \<open>os.makedirs\<close> succeeds and \<open>open\<close> then raises, be it
  \<open>FileNotFoundError\<close> for a missing analysis file or another error, the constructor
  raises that error and leaves the file system as \<open>os.makedirs\<close> left it, with the new
  directory: it is not free of side effects on failure. When \<open>os.makedirs\<close> itself
  raises, that error leaves the constructor and the analysis file is not opened. When
  the output directory exists, a failing \<open>open\<close> leaves the file system untouched. All
  this holds for every operating system.
\<close>

theorem constructor_creates_directory_before_failing:
  assumes "HAS_MATPLOTLIB"
  shows "(\<not> path_exists os fs output_dir \<longrightarrow>
          makedirs os fs output_dir = (fs', Inr ()) \<longrightarrow>
          open_read os fs' analysis_file = Inl e \<longrightarrow>
            ResultsVisualizer os HAS_MATPLOTLIB json_load fs analysis_file output_dir = (fs', Inl e))
    \<and> (\<not> path_exists os fs output_dir \<longrightarrow>
          makedirs os fs output_dir = (fs', Inl e) \<longrightarrow>
            ResultsVisualizer os HAS_MATPLOTLIB json_load fs analysis_file output_dir = (fs', Inl e))
    \<and> (path_exists os fs output_dir \<longrightarrow>
          open_read os fs analysis_file = Inl e \<longrightarrow>
            ResultsVisualizer os HAS_MATPLOTLIB json_load fs analysis_file output_dir = (fs, Inl e))"
  using assms by (simp add: ResultsVisualizer_def ensure_output_dir_def)

theorem constructor_creates_directory_before_failing_witness:
  "\<not> path_exists disk_os empty_disk ''visualizations''
   \<and> makedirs disk_os empty_disk ''visualizations'' =
       (\<lparr>dirs = {''visualizations''}, files = Map.empty\<rparr>, Inr ())
   \<and> open_read disk_os \<lparr>dirs = {''visualizations''}, files = Map.empty\<rparr> ''missing.json'' =
       Inl (FileNotFoundError ''missing.json'')
   \<and> ResultsVisualizer disk_os True no_json empty_disk ''missing.json'' ''visualizations'' =
       (\<lparr>dirs = {''visualizations''}, files = Map.empty\<rparr>, Inl (FileNotFoundError ''missing.json''))
   \<and> path_exists disk_os \<lparr>dirs = {''visualizations''}, files = Map.empty\<rparr> ''visualizations''"
proof -
  have x: "path_exists disk_os \<lparr>dirs = {''visualizations''}, files = Map.empty\<rparr> ''visualizations''"
    by (simp add: disk_os_def disk_exists_def plain_name_def)
  show ?thesis
    using constructor_creates_directory_before_failing
      [where HAS_MATPLOTLIB = True and os = disk_os and fs = empty_disk
        and output_dir = "''visualizations''" and analysis_file = "''missing.json''"
        and fs' = "\<lparr>dirs = {''visualizations''}, files = Map.empty\<rparr>"
        and e = "FileNotFoundError ''missing.json''" and json_load = no_json]
      disk_first_run(2,3,4) x
    by simp
qed

text \<open>
  C10 as stated fails for the empty output path: \<open>os.makedirs\<close> raises
  \<open>FileNotFoundError\<close> itself, and the constructor has failed with that error, the
  analysis file missing, and no directory created.
\<close>

theorem constructor_creates_directory_counterexample:
  "\<not> path_exists disk_os empty_disk ''missing.json''
   \<and> ResultsVisualizer disk_os True no_json empty_disk ''missing.json'' [] =
       (empty_disk, Inl (FileNotFoundError []))
   \<and> \<not> path_exists disk_os empty_disk []"
  by (simp add: ResultsVisualizer_def ensure_output_dir_def disk_os_def disk_exists_def
      disk_makedirs_def plain_name_def empty_disk_def)

subsection \<open>Counting with a dictionary\<close>

lemma dict_get_map:
  "dict_get (map (\<lambda>k. (k, c k)) ks) x dflt = (if x \<in> set ks then c x else dflt)"
  by (induction ks) (auto simp: dict_get_def)

lemma dict_set_map:
  "x \<in> set ks \<Longrightarrow> distinct ks \<Longrightarrow>
   dict_set (map (\<lambda>k. (k, c k)) ks) x v = map (\<lambda>k. (k, if k = x then v else c k)) ks"
proof (induction ks)
  case Nil
  then show ?case by simp
next
  case (Cons k ks)
  show ?case
  proof (cases "k = x")
    case True
    then have "x \<notin> set ks" using Cons.prems by simp
    then have "map (\<lambda>k. (k, if k = x then v else c k)) ks = map (\<lambda>k. (k, c k)) ks"
      by (intro map_cong) auto
    with True show ?thesis by simp
  next
    case False
    with Cons show ?thesis by simp
  qed
qed

lemma dict_count_sum:
  "sum_list (map snd (dict_count d k)) = sum_list (map snd d) + 1"
  by (induction d) (auto simp: dict_count_def dict_get_def)

lemma foldl_dict_count_sum:
  "sum_list (map snd (foldl dict_count d ks)) = sum_list (map snd d) + length ks"
  by (induction ks arbitrary: d) (simp_all add: dict_count_sum)

lemma occurrence_counts_snoc:
  "dict_count (occurrence_counts xs) x = occurrence_counts (xs @ [x])"
proof (cases "x \<in> set xs")
  case True
  let ?F = "rev (remdups (rev xs))"
  have d: "distinct ?F" and m: "x \<in> set ?F"
    using True by simp_all
  have "dict_count (occurrence_counts xs) x =
        map (\<lambda>k. (k, if k = x then count_list xs x + 1 else count_list xs k)) ?F"
    using True by (simp add: dict_count_def occurrence_counts_def dict_get_map dict_set_map [OF m d])
  also have "\<dots> = map (\<lambda>k. (k, count_list (xs @ [x]) k)) ?F"
    by (intro map_cong) auto
  also have "\<dots> = occurrence_counts (xs @ [x])"
    using True by (simp add: occurrence_counts_def)
  finally show ?thesis .
next
  case False
  let ?F = "rev (remdups (rev xs))"
  have k: "x \<notin> fst ` set (occurrence_counts xs)"
    using False by (auto simp: occurrence_counts_def)
  have "dict_count (occurrence_counts xs) x = occurrence_counts xs @ [(x, 1)]"
    using False by (simp add: dict_count_def dict_set_new [OF k])
      (simp add: occurrence_counts_def dict_get_map)
  also have "\<dots> = map (\<lambda>k. (k, count_list (xs @ [x]) k)) ?F @ [(x, count_list (xs @ [x]) x)]"
  proof -
    have "map (\<lambda>k. (k, count_list xs k)) ?F = map (\<lambda>k. (k, count_list (xs @ [x]) k)) ?F"
      using False by (intro map_cong) auto
    moreover have "count_list (xs @ [x]) x = 1"
      using False by (simp add: count_list_0_iff)
    ultimately show ?thesis by (simp add: occurrence_counts_def)
  qed
  also have "\<dots> = occurrence_counts (xs @ [x])"
    using False by (simp add: occurrence_counts_def)
  finally show ?thesis .
qed

text \<open>Counting a list of keys into an empty dictionary.\<close>

lemma foldl_dict_count: "foldl dict_count [] xs = occurrence_counts xs"
proof (induction xs rule: rev_induct)
  case Nil
  then show ?case by (simp add: occurrence_counts_def)
next
  case (snoc x xs)
  then show ?case by (simp add: occurrence_counts_snoc)
qed

lemma occurrence_counts_keys:
  "distinct (map fst (occurrence_counts xs))" "set (map fst (occurrence_counts xs)) = set xs"
  by (simp_all add: occurrence_counts_def comp_def)

lemma occurrence_counts_sum: "sum_list (map snd (occurrence_counts xs)) = length xs"
  using foldl_dict_count_sum [of "[]" xs] by (simp add: foldl_dict_count)

text \<open>A rearranged dictionary of counts still gives every key its number of occurrences.\<close>

lemma dict_get_occurrence_counts:
  assumes "mset d = mset (occurrence_counts xs)"
  shows "dict_get d x 0 = count_list xs x"
proof -
  have dist: "distinct (map fst d)"
    using assms occurrence_counts_keys(1) [of xs]
    by (metis mset_eq_imp_distinct_iff mset_map)
  have s: "set d = set (occurrence_counts xs)"
    using assms by (rule mset_eq_setD)
  show ?thesis
  proof (cases "x \<in> set xs")
    case True
    then have "(x, count_list xs x) \<in> set d"
      by (simp add: s) (auto simp: occurrence_counts_def)
    then have "map_of d x = Some (count_list xs x)"
      using dist by simp
    then show ?thesis by (simp add: dict_get_def)
  next
    case False
    then have "x \<notin> fst ` set d"
      by (simp add: s) (auto simp: occurrence_counts_def)
    then have "map_of d x = None"
      by (simp add: map_of_eq_None_iff)
    with False show ?thesis by (simp add: dict_get_def count_list_0_iff)
  qed
qed

subsection \<open>The two sorts\<close>

lemma sorted_reverse_mset: "mset (sorted_reverse f xs) = mset xs"
  by (simp add: sorted_reverse_def)

lemma sorted_reverse_descending: "sorted_wrt (\<ge>) (map f (sorted_reverse f xs))"
proof -
  have "sorted (map f (sort_key f (rev xs)))"
    by (rule sorted_sort_key)
  then show ?thesis
    by (simp add: sorted_reverse_def rev_map [symmetric] sorted_wrt_rev)
qed

lemma sorted_reverse_stable:
  "filter (\<lambda>x. f x = c) (sorted_reverse f xs) = filter (\<lambda>x. f x = c) xs"
proof -
  have "filter (\<lambda>x. f x = c) (sorted_reverse f xs) =
        rev (filter (\<lambda>x. f x = c) (sort_key f (rev xs)))"
    by (simp add: sorted_reverse_def rev_filter)
  also have "\<dots> = rev (filter (\<lambda>x. f x = c) (rev xs))"
    by (simp add: sort_key_stable)
  finally show ?thesis by (simp add: rev_filter)
qed

lemma sum_list_mset_cong:
  "mset xs = mset ys \<Longrightarrow> sum_list (map snd xs) = sum_list (map snd (ys :: ('k \<times> nat) list))"
  by (metis mset_map sum_mset_sum_list)

lemma sorted_keys_of_sort:
  fixes d :: "('k::linorder \<times> 'v::linorder) list"
  shows "sorted (map fst (sort d))"
proof -
  have "sorted_wrt (\<le>) (sort d)"
    using sorted_sort [of d] by simp
  then have "sorted_wrt (\<lambda>x y. fst x \<le> fst y) (sort d)"
    by (rule sorted_wrt_mono_rel [rotated]) (auto simp: less_eq_prod_def)
  then show ?thesis
    by (simp add: sorted_map)
qed

lemma distinct_keys_mset:
  "mset d = mset e \<Longrightarrow> distinct (map fst e) \<Longrightarrow> distinct (map fst d)"
  by (metis mset_eq_imp_distinct_iff mset_map)

subsection \<open>Decimal strings of the same length compare as the numbers\<close>

lemma digit_char_less: "x < 10 \<Longrightarrow> y < 10 \<Longrightarrow> digit_char x < digit_char y \<longleftrightarrow> x < y"
  by (simp add: digit_char_def less_char_def)

lemma digit_char_eq: "x < 10 \<Longrightarrow> y < 10 \<Longrightarrow> digit_char x = digit_char y \<longleftrightarrow> x = y"
  using digit_char_less [of x y] digit_char_less [of y x]
  by (metis less_irrefl linorder_neqE_nat)

lemma length_str_nat_small: "n < 10 \<Longrightarrow> length (str_nat n) = Suc 0"
  by (subst str_nat.simps) simp

lemma length_str_nat_big: "\<not> n < 10 \<Longrightarrow> length (str_nat n) = Suc (length (str_nat (n div 10)))"
  by (subst str_nat.simps) simp

lemma length_str_nat_pos: "0 < length (str_nat n)"
  by (subst str_nat.simps) simp

lemma length_str_nat_one: "length (str_nat n) = Suc 0 \<longleftrightarrow> n < 10"
proof (cases "n < 10")
  case True
  then show ?thesis by (simp add: length_str_nat_small)
next
  case False
  then show ?thesis
    using length_str_nat_pos [of "n div 10"] by (simp add: length_str_nat_big)
qed

lemma snoc_less_snoc:
  fixes xs ys :: "'a::linorder list"
  shows "length xs = length ys \<Longrightarrow> xs @ [x] < ys @ [y] \<longleftrightarrow> xs < ys \<or> xs = ys \<and> x < y"
  by (induction xs ys rule: list_induct2) auto

lemma str_nat_inject: "str_nat a = str_nat b \<Longrightarrow> a = b"
proof (induction a arbitrary: b rule: str_nat.induct)
  case (1 n)
  have len: "length (str_nat n) = length (str_nat b)"
    using "1.prems" by simp
  show ?case
  proof (cases "n < 10")
    case True
    then have "length (str_nat b) = Suc 0"
      using len by (simp add: length_str_nat_small)
    then have b: "b < 10"
      by (simp add: length_str_nat_one)
    have "[digit_char n] = [digit_char b]"
      using "1.prems" True b by (simp add: str_nat.simps [of n] str_nat.simps [of b])
    then show ?thesis
      using True b digit_char_eq [of n b] by simp
  next
    case False
    then have "length (str_nat b) \<noteq> Suc 0"
      using len length_str_nat_one [of n] by simp
    then have b: "\<not> b < 10"
      by (simp add: length_str_nat_one)
    have "str_nat (n div 10) @ [digit_char (n mod 10)] = str_nat (b div 10) @ [digit_char (b mod 10)]"
      using "1.prems" False b by (simp add: str_nat.simps [of n] str_nat.simps [of b])
    then have "str_nat (n div 10) = str_nat (b div 10)"
      and "digit_char (n mod 10) = digit_char (b mod 10)"
      by simp_all
    then have "n div 10 = b div 10" and "n mod 10 = b mod 10"
      using "1.IH" [OF False, of "b div 10"] digit_char_eq [of "n mod 10" "b mod 10"]
      by simp_all
    then show ?thesis
      by (metis div_mult_mod_eq)
  qed
qed

lemma base_ten_less:
  "r < 10 \<Longrightarrow> r' < 10 \<Longrightarrow>
   10 * q + r < 10 * q' + (r' :: nat) \<longleftrightarrow> q < q' \<or> q = q' \<and> r < r'"
  by arith

lemma str_nat_less:
  "length (str_nat a) = length (str_nat b) \<Longrightarrow> str_nat a < str_nat b \<longleftrightarrow> a < b"
proof (induction a arbitrary: b rule: str_nat.induct)
  case (1 n)
  show ?case
  proof (cases "n < 10")
    case True
    then have "length (str_nat b) = Suc 0"
      using "1.prems" by (simp add: length_str_nat_small)
    then have b: "b < 10"
      by (simp add: length_str_nat_one)
    have "str_nat n = [digit_char n]" and "str_nat b = [digit_char b]"
      using True b by (simp_all add: str_nat.simps [of n] str_nat.simps [of b])
    then show ?thesis
      using True b digit_char_less [of n b] by simp
  next
    case False
    then have "length (str_nat b) \<noteq> Suc 0"
      using "1.prems" length_str_nat_one [of n] by simp
    then have b: "\<not> b < 10"
      by (simp add: length_str_nat_one)
    have len: "length (str_nat (n div 10)) = length (str_nat (b div 10))"
      using "1.prems" False b by (simp add: length_str_nat_big)
    have n': "str_nat n = str_nat (n div 10) @ [digit_char (n mod 10)]"
      using False by (subst str_nat.simps) simp
    have b': "str_nat b = str_nat (b div 10) @ [digit_char (b mod 10)]"
      using b by (subst str_nat.simps) simp
    have "str_nat n < str_nat b \<longleftrightarrow>
          str_nat (n div 10) < str_nat (b div 10) \<or>
          str_nat (n div 10) = str_nat (b div 10) \<and> digit_char (n mod 10) < digit_char (b mod 10)"
      unfolding n' b' by (rule snoc_less_snoc [OF len])
    also have "\<dots> \<longleftrightarrow> n div 10 < b div 10 \<or> n div 10 = b div 10 \<and> n mod 10 < b mod 10"
      using "1.IH" [OF False len] digit_char_less [of "n mod 10" "b mod 10"]
        str_nat_inject [of "n div 10" "b div 10"]
      by auto
    also have "\<dots> \<longleftrightarrow> n < b"
      using base_ten_less [of "n mod 10" "b mod 10" "n div 10" "b div 10"] by simp
    finally show ?thesis .
  qed
qed

lemma length_str_nat_four:
  assumes "1000 \<le> n" and "n \<le> 9999"
  shows "length (str_nat n) = 4"
proof -
  have 1: "\<not> n < 10" and 2: "\<not> n div 10 < 10" and 3: "\<not> n div 10 div 10 < 10"
    and 4: "n div 10 div 10 div 10 < 10"
    using assms by simp_all
  show ?thesis
    by (simp add: length_str_nat_big [OF 1] length_str_nat_big [OF 2] length_str_nat_big [OF 3]
        length_str_nat_small [OF 4])
qed

subsection \<open>The loop of \<open>analyze_results\<close>\<close>

lemma count_stars_step:
  "count_stars [(''0-10'', n1), (''11-50'', n2), (''51-100'', n3), (''101-500'', n4),
                (''501-1000'', n5), (''1001+'', n6)] s =
   Inr [(''0-10'', n1 + (if s \<le> 10 then 1 else 0)),
        (''11-50'', n2 + (if 10 < s \<and> s \<le> 50 then 1 else 0)),
        (''51-100'', n3 + (if 50 < s \<and> s \<le> 100 then 1 else 0)),
        (''101-500'', n4 + (if 100 < s \<and> s \<le> 500 then 1 else 0)),
        (''501-1000'', n5 + (if 500 < s \<and> s \<le> 1000 then 1 else 0)),
        (''1001+'', n6 + (if 1000 < s then 1 else 0))]"
  by (simp add: count_stars_def dict_add1_def)

lemma count_language_foldl:
  "count_language d r = foldl dict_count d (counted_languages [r])"
  by (simp add: count_language_def counted_languages_def split: option.splits)

lemma count_topics_foldl:
  "count_topics d r = foldl dict_count d (counted_topics [r])"
  by (simp add: count_topics_def counted_topics_def)

lemma count_created_foldl:
  "timestamps_parse sy [r] \<Longrightarrow>
   count_created sy d r = Inr (foldl dict_count d (map str_nat (counted_years sy [r])))"
  by (auto simp: count_created_def counted_years_def timestamps_parse_def split: option.splits)

lemma count_created_fails:
  "\<not> timestamps_parse sy [r] \<Longrightarrow> count_created sy d r = Inl ValueError"
  by (auto simp: count_created_def timestamps_parse_def split: option.splits)

lemma counted_Cons:
  "counted_languages (r # rs) = counted_languages [r] @ counted_languages rs"
  "counted_topics (r # rs) = counted_topics [r] @ counted_topics rs"
  "counted_years sy (r # rs) = counted_years sy [r] @ counted_years sy rs"
  "timestamps_parse sy (r # rs) \<longleftrightarrow> timestamps_parse sy [r] \<and> timestamps_parse sy rs"
  by (simp_all add: counted_languages_def counted_topics_def counted_years_def
      timestamps_parse_def)

lemma length_filter_Cons:
  "length (filter P (x # xs)) = (if P x then 1 else 0) + length (filter P xs)"
  by simp

text \<open>One pass of the loop body over a well-formed distribution.\<close>

lemma analyze_repo_step:
  assumes "stars_distribution a =
      [(''0-10'', n1), (''11-50'', n2), (''51-100'', n3), (''101-500'', n4),
       (''501-1000'', n5), (''1001+'', n6)]"
    and "timestamps_parse sy [r]"
  shows "analyze_repo sy a r =
     Inr \<lparr>total_count = total_count a,
          languages = foldl dict_count (languages a) (counted_languages [r]),
          topics = foldl dict_count (topics a) (counted_topics [r]),
          created_dates = foldl dict_count (created_dates a) (map str_nat (counted_years sy [r])),
          stars_distribution =
            [(''0-10'', n1 + (if stars_of r \<le> 10 then 1 else 0)),
             (''11-50'', n2 + (if 10 < stars_of r \<and> stars_of r \<le> 50 then 1 else 0)),
             (''51-100'', n3 + (if 50 < stars_of r \<and> stars_of r \<le> 100 then 1 else 0)),
             (''101-500'', n4 + (if 100 < stars_of r \<and> stars_of r \<le> 500 then 1 else 0)),
             (''501-1000'', n5 + (if 500 < stars_of r \<and> stars_of r \<le> 1000 then 1 else 0)),
             (''1001+'', n6 + (if 1000 < stars_of r then 1 else 0))]\<rparr>"
  unfolding analyze_repo_def Let_def assms(1) count_stars_step
    count_created_foldl [OF assms(2)] count_language_foldl count_topics_foldl
  by simp

lemma analyze_repo_fails:
  "\<not> timestamps_parse sy [r] \<Longrightarrow> analyze_repo sy a r = Inl ValueError"
  by (simp add: analyze_repo_def Let_def count_created_fails)

lemma analyze_loop_result:
  assumes "timestamps_parse sy rs"
    and "stars_distribution a =
      [(''0-10'', n1), (''11-50'', n2), (''51-100'', n3), (''101-500'', n4),
       (''501-1000'', n5), (''1001+'', n6)]"
  shows "analyze_loop sy rs a =
     Inr \<lparr>total_count = total_count a,
          languages = foldl dict_count (languages a) (counted_languages rs),
          topics = foldl dict_count (topics a) (counted_topics rs),
          created_dates = foldl dict_count (created_dates a) (map str_nat (counted_years sy rs)),
          stars_distribution =
            [(''0-10'', n1 + length (filter (\<lambda>r. stars_of r \<le> 10) rs)),
             (''11-50'', n2 + length (filter (\<lambda>r. 10 < stars_of r \<and> stars_of r \<le> 50) rs)),
             (''51-100'', n3 + length (filter (\<lambda>r. 50 < stars_of r \<and> stars_of r \<le> 100) rs)),
             (''101-500'', n4 + length (filter (\<lambda>r. 100 < stars_of r \<and> stars_of r \<le> 500) rs)),
             (''501-1000'', n5 + length (filter (\<lambda>r. 500 < stars_of r \<and> stars_of r \<le> 1000) rs)),
             (''1001+'', n6 + length (filter (\<lambda>r. 1000 < stars_of r) rs))]\<rparr>"
  using assms
proof (induction rs arbitrary: a n1 n2 n3 n4 n5 n6)
  case Nil
  then show ?case
    by (simp add: counted_languages_def counted_topics_def counted_years_def)
next
  case (Cons r rs)
  have p: "timestamps_parse sy [r]" and q: "timestamps_parse sy rs"
    using Cons.prems(1) counted_Cons(4) [of sy r rs] by simp_all
  note step = analyze_repo_step [OF Cons.prems(2) p]
  show ?case
    unfolding analyze_loop.simps step sum.case
    by (subst Cons.IH [OF q]) (simp_all add: counted_Cons(1) [of r rs] counted_Cons(2) [of r rs]
        counted_Cons(3) [of sy r rs] length_filter_Cons del: filter.simps)
qed

lemma analyze_loop_fails:
  assumes "\<not> timestamps_parse sy rs"
    and "stars_distribution a =
      [(''0-10'', n1), (''11-50'', n2), (''51-100'', n3), (''101-500'', n4),
       (''501-1000'', n5), (''1001+'', n6)]"
  shows "analyze_loop sy rs a = Inl ValueError"
  using assms
proof (induction rs arbitrary: a n1 n2 n3 n4 n5 n6)
  case Nil
  then show ?case by (simp add: timestamps_parse_def)
next
  case (Cons r rs)
  show ?case
  proof (cases "timestamps_parse sy [r]")
    case True
    then have q: "\<not> timestamps_parse sy rs"
      using Cons.prems(1) counted_Cons(4) [of sy r rs] by simp
    note step = analyze_repo_step [OF Cons.prems(2) True]
    show ?thesis
      unfolding analyze_loop.simps step sum.case
      by (rule Cons.IH [OF q]) simp
  next
    case False
    then show ?thesis
      by (simp add: analyze_repo_fails)
  qed
qed

text \<open>
  What \<open>analyze_results\<close> returns, in closed form: the error of the first timestamp that
  \<open>strptime\<close> rejects, or the analysis whose every entry is an expression of the
  collection alone.
\<close>

lemma analyze_results_closed_form:
  "analyze_results self sy rs =
     (if timestamps_parse sy rs
      then Inr \<lparr>total_count = length rs,
                languages = sorted_reverse snd (occurrence_counts (counted_languages rs)),
                topics = sorted_reverse snd (occurrence_counts (counted_topics rs)),
                created_dates = sort (occurrence_counts (map str_nat (counted_years sy rs))),
                stars_distribution =
                  [(''0-10'', length (filter (\<lambda>r. stars_of r \<le> 10) rs)),
                   (''11-50'', length (filter (\<lambda>r. 10 < stars_of r \<and> stars_of r \<le> 50) rs)),
                   (''51-100'', length (filter (\<lambda>r. 50 < stars_of r \<and> stars_of r \<le> 100) rs)),
                   (''101-500'', length (filter (\<lambda>r. 100 < stars_of r \<and> stars_of r \<le> 500) rs)),
                   (''501-1000'', length (filter (\<lambda>r. 500 < stars_of r \<and> stars_of r \<le> 1000) rs)),
                   (''1001+'', length (filter (\<lambda>r. 1000 < stars_of r) rs))]\<rparr>
      else Inl ValueError)"
proof (cases "timestamps_parse sy rs")
  case True
  have i: "stars_distribution (initial_analysis rs) =
      [(''0-10'', 0), (''11-50'', 0), (''51-100'', 0), (''101-500'', 0),
       (''501-1000'', 0), (''1001+'', 0)]"
    by (simp add: initial_analysis_def)
  show ?thesis
    unfolding analyze_results_def analyze_loop_result [OF True i]
    using True by (simp add: initial_analysis_def foldl_dict_count)
next
  case False
  have i: "stars_distribution (initial_analysis rs) =
      [(''0-10'', 0), (''11-50'', 0), (''51-100'', 0), (''101-500'', 0),
       (''501-1000'', 0), (''1001+'', 0)]"
    by (simp add: initial_analysis_def)
  show ?thesis
    unfolding analyze_results_def analyze_loop_fails [OF False i]
    using False by simp
qed

lemma star_buckets_partition:
  "length (filter (\<lambda>r. stars_of r \<le> 10) rs) +
   length (filter (\<lambda>r. 10 < stars_of r \<and> stars_of r \<le> 50) rs) +
   length (filter (\<lambda>r. 50 < stars_of r \<and> stars_of r \<le> 100) rs) +
   length (filter (\<lambda>r. 100 < stars_of r \<and> stars_of r \<le> 500) rs) +
   length (filter (\<lambda>r. 500 < stars_of r \<and> stars_of r \<le> 1000) rs) +
   length (filter (\<lambda>r. 1000 < stars_of r) rs) = length rs"
  by (induction rs) auto

subsection \<open>The star distribution\<close>

lemma timestamps_parse_three_star_repos: "timestamps_parse sy three_star_repos"
  by (simp add: timestamps_parse_def three_star_repos_def example_repo_def)

text \<open>
  C2. Where every creation timestamp parses, \<open>analyze_results\<close> returns an analysis whose
  \<open>stars_distribution\<close> has the six keys in their fixed order, each with the number of
  records whose star count (0 when missing) lies in its range: at most 10, 11 to 50,
  51 to 100, 101 to 500, 501 to 1000, above 1000. The ranges are disjoint and cover the
  integers, so the six counts add up to \<open>total_count\<close>, the length of the collection.
  One pass of the classification over the initial distribution leaves the six keys in
  place and the counts adding up to 1: the record is in exactly one bucket.
\<close>

theorem star_buckets_complete:
  assumes "timestamps_parse strptime_year rs"
  shows "(\<exists>a. analyze_results self strptime_year rs = Inr a
      \<and> total_count a = length rs
      \<and> stars_distribution a =
          [(''0-10'', length (filter (\<lambda>r. stars_of r \<le> 10) rs)),
           (''11-50'', length (filter (\<lambda>r. 10 < stars_of r \<and> stars_of r \<le> 50) rs)),
           (''51-100'', length (filter (\<lambda>r. 50 < stars_of r \<and> stars_of r \<le> 100) rs)),
           (''101-500'', length (filter (\<lambda>r. 100 < stars_of r \<and> stars_of r \<le> 500) rs)),
           (''501-1000'', length (filter (\<lambda>r. 500 < stars_of r \<and> stars_of r \<le> 1000) rs)),
           (''1001+'', length (filter (\<lambda>r. 1000 < stars_of r) rs))]
      \<and> dict_keys (stars_distribution a) =
          [''0-10'', ''11-50'', ''51-100'', ''101-500'', ''501-1000'', ''1001+'']
      \<and> sum_list (dict_values (stars_distribution a)) = total_count a)
    \<and> (\<exists>d. count_stars (stars_distribution (initial_analysis rs)) stars = Inr d
      \<and> dict_keys d = [''0-10'', ''11-50'', ''51-100'', ''101-500'', ''501-1000'', ''1001+'']
      \<and> list_all (\<lambda>n. n = 0 \<or> n = 1) (dict_values d)
      \<and> sum_list (dict_values d) = 1)"
proof
  show "\<exists>a. analyze_results self strptime_year rs = Inr a
      \<and> total_count a = length rs
      \<and> stars_distribution a =
          [(''0-10'', length (filter (\<lambda>r. stars_of r \<le> 10) rs)),
           (''11-50'', length (filter (\<lambda>r. 10 < stars_of r \<and> stars_of r \<le> 50) rs)),
           (''51-100'', length (filter (\<lambda>r. 50 < stars_of r \<and> stars_of r \<le> 100) rs)),
           (''101-500'', length (filter (\<lambda>r. 100 < stars_of r \<and> stars_of r \<le> 500) rs)),
           (''501-1000'', length (filter (\<lambda>r. 500 < stars_of r \<and> stars_of r \<le> 1000) rs)),
           (''1001+'', length (filter (\<lambda>r. 1000 < stars_of r) rs))]
      \<and> dict_keys (stars_distribution a) =
          [''0-10'', ''11-50'', ''51-100'', ''101-500'', ''501-1000'', ''1001+'']
      \<and> sum_list (dict_values (stars_distribution a)) = total_count a"
    using assms star_buckets_partition [of rs]
    by (simp add: analyze_results_closed_form dict_keys_def dict_values_def)
  have "count_stars (stars_distribution (initial_analysis rs)) stars =
      Inr [(''0-10'', 0 + (if stars \<le> 10 then 1 else 0)),
        (''11-50'', 0 + (if 10 < stars \<and> stars \<le> 50 then 1 else 0)),
        (''51-100'', 0 + (if 50 < stars \<and> stars \<le> 100 then 1 else 0)),
        (''101-500'', 0 + (if 100 < stars \<and> stars \<le> 500 then 1 else 0)),
        (''501-1000'', 0 + (if 500 < stars \<and> stars \<le> 1000 then 1 else 0)),
        (''1001+'', 0 + (if 1000 < stars then 1 else 0))]"
    unfolding initial_analysis_def by (simp only: analysis.simps count_stars_step)
  then show "\<exists>d. count_stars (stars_distribution (initial_analysis rs)) stars = Inr d
      \<and> dict_keys d = [''0-10'', ''11-50'', ''51-100'', ''101-500'', ''501-1000'', ''1001+'']
      \<and> list_all (\<lambda>n. n = 0 \<or> n = 1) (dict_values d)
      \<and> sum_list (dict_values d) = 1"
    by (auto simp: dict_keys_def dict_values_def)
qed

text \<open>Scenario 1: 5, 50 and 2000 stars fall into the first, the second and the last bucket.\<close>

theorem star_buckets_complete_witness:
  "timestamps_parse example_strptime_year three_star_repos
   \<and> (\<exists>a. analyze_results (GithubExplorer None) example_strptime_year three_star_repos = Inr a
        \<and> total_count a = 3
        \<and> stars_distribution a =
            [(''0-10'', 1), (''11-50'', 1), (''51-100'', 0), (''101-500'', 0),
             (''501-1000'', 0), (''1001+'', 1)]
        \<and> sum_list (dict_values (stars_distribution a)) = 3)"
proof -
  have l: "length three_star_repos = 3"
    by (simp add: three_star_repos_def)
  have f: "length (filter (\<lambda>r. stars_of r \<le> 10) three_star_repos) = 1"
    "length (filter (\<lambda>r. 10 < stars_of r \<and> stars_of r \<le> 50) three_star_repos) = 1"
    "length (filter (\<lambda>r. 50 < stars_of r \<and> stars_of r \<le> 100) three_star_repos) = 0"
    "length (filter (\<lambda>r. 100 < stars_of r \<and> stars_of r \<le> 500) three_star_repos) = 0"
    "length (filter (\<lambda>r. 500 < stars_of r \<and> stars_of r \<le> 1000) three_star_repos) = 0"
    "length (filter (\<lambda>r. 1000 < stars_of r) three_star_repos) = 1"
    by (simp_all add: three_star_repos_def example_repo_def stars_of_def)
  obtain a where a: "analyze_results (GithubExplorer None) example_strptime_year three_star_repos = Inr a"
    and t: "total_count a = length three_star_repos"
    and d: "stars_distribution a =
          [(''0-10'', length (filter (\<lambda>r. stars_of r \<le> 10) three_star_repos)),
           (''11-50'', length (filter (\<lambda>r. 10 < stars_of r \<and> stars_of r \<le> 50) three_star_repos)),
           (''51-100'', length (filter (\<lambda>r. 50 < stars_of r \<and> stars_of r \<le> 100) three_star_repos)),
           (''101-500'', length (filter (\<lambda>r. 100 < stars_of r \<and> stars_of r \<le> 500) three_star_repos)),
           (''501-1000'', length (filter (\<lambda>r. 500 < stars_of r \<and> stars_of r \<le> 1000) three_star_repos)),
           (''1001+'', length (filter (\<lambda>r. 1000 < stars_of r) three_star_repos))]"
    and s: "sum_list (dict_values (stars_distribution a)) = total_count a"
    using star_buckets_complete [where strptime_year = example_strptime_year
        and rs = three_star_repos and self = "GithubExplorer None" and stars = 0,
        OF timestamps_parse_three_star_repos]
    by blast
  have t': "total_count a = 3"
    unfolding t l ..
  have d': "stars_distribution a =
      [(''0-10'', 1), (''11-50'', 1), (''51-100'', 0), (''101-500'', 0),
       (''501-1000'', 0), (''1001+'', 1)]"
    unfolding d f ..
  have s': "sum_list (dict_values (stars_distribution a)) = 3"
    unfolding s t' ..
  show ?thesis
    using a t' d' s' timestamps_parse_three_star_repos [of example_strptime_year]
    by simp
qed

subsection \<open>Records without a language\<close>

lemma count_list_counted_languages:
  "count_list (counted_languages rs) l =
     (if l = [] then 0 else length (filter (\<lambda>r. language r = Some l) rs))"
  by (induction rs) (auto simp: counted_languages_def split: option.splits)

lemma length_counted_languages:
  "length (counted_languages rs) =
     length (filter (\<lambda>r. language r \<noteq> None \<and> language r \<noteq> Some []) rs)"
  by (induction rs) (auto simp: counted_languages_def split: option.splits)

lemma set_counted_languages:
  "set (counted_languages rs) = {l. l \<noteq> [] \<and> (\<exists>r\<in>set rs. language r = Some l)}"
  by (induction rs) (auto simp: counted_languages_def split: option.splits)

lemma length_counted_years:
  "timestamps_parse sy rs \<Longrightarrow>
   length (counted_years sy rs) = length (filter (\<lambda>r. created_at r \<noteq> None) rs)"
  by (induction rs) (auto simp: counted_years_def timestamps_parse_def split: option.splits)

text \<open>
  C3. Where every creation timestamp parses, \<open>analyze_results\<close> returns an analysis in
  which a language has as its count the number of records with that language, so a
  record with a missing, null or empty language is counted under no key and is no key
  itself, while \<open>total_count\<close> is the length of the collection and the star buckets
  count every record. Hence the language counts add up to the number of records with a
  language and the year counts to the number of records with a creation timestamp, both
  at most \<open>total_count\<close>, and the bucket counts add up to \<open>total_count\<close>.
\<close>

theorem null_language_excluded:
  assumes "timestamps_parse strptime_year rs"
  shows "\<exists>a. analyze_results self strptime_year rs = Inr a
      \<and> total_count a = length rs
      \<and> (\<forall>l. dict_get (languages a) l 0 =
            (if l = [] then 0 else length (filter (\<lambda>r. language r = Some l) rs)))
      \<and> set (dict_keys (languages a)) = {l. l \<noteq> [] \<and> (\<exists>r\<in>set rs. language r = Some l)}
      \<and> sum_list (dict_values (languages a)) =
          length (filter (\<lambda>r. language r \<noteq> None \<and> language r \<noteq> Some []) rs)
      \<and> sum_list (dict_values (languages a)) \<le> total_count a
      \<and> sum_list (dict_values (created_dates a)) =
          length (filter (\<lambda>r. created_at r \<noteq> None) rs)
      \<and> sum_list (dict_values (created_dates a)) \<le> total_count a
      \<and> sum_list (dict_values (stars_distribution a)) = total_count a"
proof -
  let ?L = "sorted_reverse snd (occurrence_counts (counted_languages rs))"
  let ?D = "sort (occurrence_counts (map str_nat (counted_years strptime_year rs)))"
  have g: "dict_get ?L l 0 =
      (if l = [] then 0 else length (filter (\<lambda>r. language r = Some l) rs))" for l
    using dict_get_occurrence_counts [of ?L "counted_languages rs" l]
    by (simp add: sorted_reverse_mset count_list_counted_languages)
  have "set (map fst ?L) = set (map fst (occurrence_counts (counted_languages rs)))"
    using sorted_reverse_mset [of snd "occurrence_counts (counted_languages rs)"]
    by (metis mset_eq_setD set_map)
  then have k: "set (dict_keys ?L) = {l. l \<noteq> [] \<and> (\<exists>r\<in>set rs. language r = Some l)}"
    by (simp only: dict_keys_def occurrence_counts_keys set_counted_languages)
  have sl: "sum_list (dict_values ?L) =
      length (filter (\<lambda>r. language r \<noteq> None \<and> language r \<noteq> Some []) rs)"
    using sum_list_mset_cong [OF sorted_reverse_mset, of snd "occurrence_counts (counted_languages rs)"]
    by (simp add: dict_values_def occurrence_counts_sum length_counted_languages)
  have sd: "sum_list (dict_values ?D) = length (filter (\<lambda>r. created_at r \<noteq> None) rs)"
    using sum_list_mset_cong [of ?D "occurrence_counts (map str_nat (counted_years strptime_year rs))"]
    by (simp add: dict_values_def occurrence_counts_sum length_counted_years [OF assms])
  show ?thesis
    using assms g k sl sd star_buckets_partition [of rs]
    by (simp add: analyze_results_closed_form dict_values_def)
qed

text \<open>Scenario 3: the second record has no language; it is counted in the total and in its bucket.\<close>

theorem null_language_excluded_witness:
  "timestamps_parse example_strptime_year three_star_repos
   \<and> language (three_star_repos ! 1) = None
   \<and> (\<exists>a. analyze_results (GithubExplorer None) example_strptime_year three_star_repos = Inr a
        \<and> total_count a = 3
        \<and> languages a = [(''Python'', 2)]
        \<and> sum_list (dict_values (languages a)) = 2
        \<and> sum_list (dict_values (created_dates a)) = 0
        \<and> sum_list (dict_values (stars_distribution a)) = 3)"
proof -
  have l: "length three_star_repos = 3"
    by (simp add: three_star_repos_def)
  have n: "language (three_star_repos ! 1) = None"
    by (simp add: three_star_repos_def example_repo_def)
  have c: "counted_languages three_star_repos = [''Python'', ''Python'']"
    by (simp add: counted_languages_def three_star_repos_def example_repo_def)
  have o: "sorted_reverse snd (occurrence_counts (counted_languages three_star_repos)) =
      [(''Python'', 2)]"
    by (simp add: c occurrence_counts_def sorted_reverse_def)
  have f: "filter (\<lambda>r. created_at r \<noteq> None) three_star_repos = []"
    "length (filter (\<lambda>r. language r \<noteq> None \<and> language r \<noteq> Some []) three_star_repos) = 2"
    by (simp_all add: three_star_repos_def example_repo_def)
  obtain a where a: "analyze_results (GithubExplorer None) example_strptime_year three_star_repos = Inr a"
    and t: "total_count a = length three_star_repos"
    and s1: "sum_list (dict_values (languages a)) =
          length (filter (\<lambda>r. language r \<noteq> None \<and> language r \<noteq> Some []) three_star_repos)"
    and s2: "sum_list (dict_values (created_dates a)) =
          length (filter (\<lambda>r. created_at r \<noteq> None) three_star_repos)"
    and s3: "sum_list (dict_values (stars_distribution a)) = total_count a"
    using null_language_excluded [where strptime_year = example_strptime_year
        and rs = three_star_repos and self = "GithubExplorer None",
        OF timestamps_parse_three_star_repos]
    by blast
  have la: "languages a = [(''Python'', 2)]"
    using a timestamps_parse_three_star_repos [of example_strptime_year]
    by (auto simp: analyze_results_closed_form o)
  have t': "total_count a = 3"
    unfolding t l ..
  have s1': "sum_list (dict_values (languages a)) = 2"
    unfolding s1 f ..
  have s2': "sum_list (dict_values (created_dates a)) = 0"
    unfolding s2 f by simp
  have s3': "sum_list (dict_values (stars_distribution a)) = 3"
    unfolding s3 t' ..
  show ?thesis
    using a la t' s1' s2' s3' n timestamps_parse_three_star_repos [of example_strptime_year]
    by simp
qed

subsection \<open>The order of the three sorted mappings\<close>

lemma sorted_str_nat:
  assumes "sorted ys" and "\<forall>y\<in>set ys. 1000 \<le> y \<and> y \<le> 9999"
  shows "sorted (map str_nat ys)"
proof -
  have "sorted_wrt (\<lambda>x y. str_nat x \<le> str_nat y) ys"
  proof (rule sorted_wrt_mono_rel [of ys "(\<le>)"])
    fix x y
    assume x: "x \<in> set ys" and y: "y \<in> set ys" and le: "x \<le> y"
    have "length (str_nat x) = length (str_nat y)"
      using assms(2) x y by (simp add: length_str_nat_four)
    then have "str_nat x < str_nat y \<longleftrightarrow> x < y"
      by (rule str_nat_less)
    then show "str_nat x \<le> str_nat y"
      using le by (cases "x = y") auto
  next
    show "sorted_wrt (\<le>) ys"
      using assms(1) by simp
  qed
  then show ?thesis
    by (simp add: sorted_map)
qed

lemma year_keys_ascending:
  assumes "\<forall>y\<in>set ys. 1000 \<le> y \<and> y \<le> 9999"
  shows "map fst (sort (occurrence_counts (map str_nat ys))) = map str_nat (sort (remdups ys))"
proof (rule sorted_distinct_set_unique)
  let ?d = "occurrence_counts (map str_nat ys)"
  show "sorted (map fst (sort ?d))"
    by (rule sorted_keys_of_sort)
  show "distinct (map fst (sort ?d))"
    by (rule distinct_keys_mset [of _ ?d]) (simp_all add: occurrence_counts_keys)
  show "sorted (map str_nat (sort (remdups ys)))"
    using assms by (intro sorted_str_nat) simp_all
  have "inj_on str_nat (set ys)"
    by (rule inj_onI) (rule str_nat_inject)
  then show "distinct (map str_nat (sort (remdups ys)))"
    by (simp add: distinct_map)
  have "set (map fst (sort ?d)) = set (map fst ?d)"
    by (metis mset_sort mset_eq_setD set_map)
  then show "set (map fst (sort ?d)) = set (map str_nat (sort (remdups ys)))"
    by (simp only: occurrence_counts_keys) simp
qed

text \<open>
  C4. Where every creation timestamp parses, \<open>analyze_results\<close> returns an analysis
  whose \<open>languages\<close> and \<open>topics\<close> have non-increasing counts in iteration order; each
  is a rearrangement of the counts in order of first appearance that leaves the entries
  of every single count in that order (the tie-break). The keys of \<open>created_dates\<close> are
  strictly ascending as strings, and where all years have four digits they are the
  distinct years in ascending numeric order.
\<close>

theorem analysis_sort_orders:
  assumes "timestamps_parse strptime_year rs"
  shows "\<exists>a. analyze_results self strptime_year rs = Inr a
      \<and> sorted_wrt (\<ge>) (dict_values (languages a))
      \<and> sorted_wrt (\<ge>) (dict_values (topics a))
      \<and> mset (languages a) = mset (occurrence_counts (counted_languages rs))
      \<and> mset (topics a) = mset (occurrence_counts (counted_topics rs))
      \<and> (\<forall>c. filter (\<lambda>kv. snd kv = c) (languages a) =
               filter (\<lambda>kv. snd kv = c) (occurrence_counts (counted_languages rs)))
      \<and> (\<forall>c. filter (\<lambda>kv. snd kv = c) (topics a) =
               filter (\<lambda>kv. snd kv = c) (occurrence_counts (counted_topics rs)))
      \<and> sorted (dict_keys (created_dates a))
      \<and> distinct (dict_keys (created_dates a))
      \<and> (list_all (\<lambda>y. 1000 \<le> y \<and> y \<le> 9999) (counted_years strptime_year rs) \<longrightarrow>
           dict_keys (created_dates a) =
             map str_nat (sort (remdups (counted_years strptime_year rs))))"
proof -
  let ?d = "occurrence_counts (map str_nat (counted_years strptime_year rs))"
  have d: "distinct (map fst (sort ?d))"
    by (rule distinct_keys_mset [of _ ?d]) (simp_all add: occurrence_counts_keys)
  have y: "list_all (\<lambda>y. 1000 \<le> y \<and> y \<le> 9999) (counted_years strptime_year rs) \<longrightarrow>
      map fst (sort ?d) = map str_nat (sort (remdups (counted_years strptime_year rs)))"
    using year_keys_ascending [of "counted_years strptime_year rs"]
    by (simp add: list_all_iff)
  show ?thesis
    using assms d y
    by (simp add: analyze_results_closed_form dict_values_def dict_keys_def
        sorted_reverse_descending sorted_reverse_stable sorted_reverse_mset sorted_keys_of_sort)
qed

lemma str_nat_examples: "str_nat 2021 = ''2021''" "str_nat 2019 = ''2019''"
  by code_simp+

lemma dated_repos_counted:
  "timestamps_parse example_strptime_year dated_repos"
  "counted_languages dated_repos = [''Rust'', ''Python'', ''Python'']"
  "counted_topics dated_repos = [''nlp'', ''poetry'', ''poetry'']"
  "counted_years example_strptime_year dated_repos = [2021, 2019, 2021]"
  by (simp_all add: timestamps_parse_def counted_languages_def counted_topics_def
      counted_years_def dated_repos_def example_strptime_year_def)

lemma dated_repos_analysis:
  "analyze_results self example_strptime_year dated_repos =
     Inr \<lparr>total_count = 3,
          languages = [(''Python'', 2), (''Rust'', 1)],
          topics = [(''poetry'', 2), (''nlp'', 1)],
          created_dates = [(''2019'', 1), (''2021'', 2)],
          stars_distribution =
            [(''0-10'', 2), (''11-50'', 0), (''51-100'', 0), (''101-500'', 1),
             (''501-1000'', 0), (''1001+'', 0)]\<rparr>"
proof -
  have s: "length (filter (\<lambda>r. stars_of r \<le> 10) dated_repos) = 2"
    "length (filter (\<lambda>r. 10 < stars_of r \<and> stars_of r \<le> 50) dated_repos) = 0"
    "length (filter (\<lambda>r. 50 < stars_of r \<and> stars_of r \<le> 100) dated_repos) = 0"
    "length (filter (\<lambda>r. 100 < stars_of r \<and> stars_of r \<le> 500) dated_repos) = 1"
    "length (filter (\<lambda>r. 500 < stars_of r \<and> stars_of r \<le> 1000) dated_repos) = 0"
    "length (filter (\<lambda>r. 1000 < stars_of r) dated_repos) = 0"
    "length dated_repos = 3"
    by (simp_all add: dated_repos_def stars_of_def)
  have l: "sorted_reverse snd (occurrence_counts [''Rust'', ''Python'', ''Python'']) =
      [(''Python'', 2), (''Rust'', 1)]"
    by (simp add: occurrence_counts_def sorted_reverse_def)
  have t: "sorted_reverse snd (occurrence_counts [''nlp'', ''poetry'', ''poetry'']) =
      [(''poetry'', 2), (''nlp'', 1)]"
    by (simp add: occurrence_counts_def sorted_reverse_def)
  have c: "sort (occurrence_counts [''2021'', ''2019'', ''2021'']) = [(''2019'', 1), (''2021'', 2)]"
    by (simp add: occurrence_counts_def)
  show ?thesis
    unfolding analyze_results_closed_form dated_repos_counted(2-4) s
    by (simp add: dated_repos_counted(1) str_nat_examples l t c)
qed

theorem analysis_sort_orders_witness:
  "timestamps_parse example_strptime_year dated_repos
   \<and> list_all (\<lambda>y. 1000 \<le> y \<and> y \<le> 9999) (counted_years example_strptime_year dated_repos)
   \<and> (\<exists>a. analyze_results (GithubExplorer None) example_strptime_year dated_repos = Inr a
        \<and> languages a = [(''Python'', 2), (''Rust'', 1)]
        \<and> topics a = [(''poetry'', 2), (''nlp'', 1)]
        \<and> sorted_wrt (\<ge>) (dict_values (languages a))
        \<and> sorted_wrt (\<ge>) (dict_values (topics a))
        \<and> dict_keys (created_dates a) = [''2019'', ''2021'']
        \<and> dict_keys (created_dates a) =
            map str_nat (sort (remdups (counted_years example_strptime_year dated_repos))))"
proof -
  have y: "list_all (\<lambda>y. 1000 \<le> y \<and> y \<le> 9999) (counted_years example_strptime_year dated_repos)"
    by (simp add: dated_repos_counted)
  obtain a where a: "analyze_results (GithubExplorer None) example_strptime_year dated_repos = Inr a"
    and 1: "sorted_wrt (\<ge>) (dict_values (languages a))"
    and 2: "sorted_wrt (\<ge>) (dict_values (topics a))"
    and 3: "list_all (\<lambda>y. 1000 \<le> y \<and> y \<le> 9999) (counted_years example_strptime_year dated_repos) \<longrightarrow>
           dict_keys (created_dates a) =
             map str_nat (sort (remdups (counted_years example_strptime_year dated_repos)))"
    using analysis_sort_orders [where strptime_year = example_strptime_year
        and rs = dated_repos and self = "GithubExplorer None", OF dated_repos_counted(1)]
    by blast
  have 4: "dict_keys (created_dates a) =
      map str_nat (sort (remdups (counted_years example_strptime_year dated_repos)))"
    using 3 y by blast
  have v: "a = \<lparr>total_count = 3,
          languages = [(''Python'', 2), (''Rust'', 1)],
          topics = [(''poetry'', 2), (''nlp'', 1)],
          created_dates = [(''2019'', 1), (''2021'', 2)],
          stars_distribution =
            [(''0-10'', 2), (''11-50'', 0), (''51-100'', 0), (''101-500'', 1),
             (''501-1000'', 0), (''1001+'', 0)]\<rparr>"
    using a unfolding dated_repos_analysis by simp
  have 5: "languages a = [(''Python'', 2), (''Rust'', 1)]"
    and 6: "topics a = [(''poetry'', 2), (''nlp'', 1)]"
    and 7: "dict_keys (created_dates a) = [''2019'', ''2021'']"
    unfolding v by (simp_all add: dict_keys_def)
  show ?thesis
    using a 1 2 4 5 6 7 y dated_repos_counted(1) by blast
qed

end
